theory Spec2Isabelle
  imports Complex_Main "HOL-Library.AList"
begin

unbundle bit_operations_syntax

section \<open>Data model\<close>

text \<open>
  An OGR geometry is a tree: a type tag (\<open>GetGeometryType\<close>), the vertices the node
  itself holds (\<open>GetPoint_2D(i)\<close> for \<open>i < GetPointCount()\<close>) and its
  sub-geometries (\<open>GetGeometryRef(i)\<close> for \<open>i < GetGeometryCount()\<close>, each of
  which the source tests for \<open>None\<close>). Coordinates are Python floats, read here as
  reals; the type tag is a Python integer.
\<close>

datatype geometry =
  Geometry (GetGeometryType: int) (GetPoints: "(real \<times> real) list")
    (GetGeometryRefs: "geometry option list")

definition GetGeometryCount :: "geometry \<Rightarrow> int" where
  "GetGeometryCount g = int (length (GetGeometryRefs g))"

definition GetX :: "geometry \<Rightarrow> real" where
  "GetX g = (case GetPoints g of [] \<Rightarrow> 0 | p # _ \<Rightarrow> fst p)"

definition GetY :: "geometry \<Rightarrow> real" where
  "GetY g = (case GetPoints g of [] \<Rightarrow> 0 | p # _ \<Rightarrow> snd p)"

text \<open>The type codes of the geometry library (\<open>ogr.wkbPoint\<close> and so on).\<close>

definition wkbPoint :: int where "wkbPoint = 1"
definition wkbLineString :: int where "wkbLineString = 2"
definition wkbPolygon :: int where "wkbPolygon = 3"
definition wkbMultiPoint :: int where "wkbMultiPoint = 4"
definition wkbMultiLineString :: int where "wkbMultiLineString = 5"
definition wkbMultiPolygon :: int where "wkbMultiPolygon = 6"

text \<open>
  JSON documents as \<open>json.load\<close> returns them. An object is an association list, in
  the order of the document.
\<close>

datatype json =
  JNull | JBool bool | JNum real | JStr string | JArr "json list" | JObj "(string \<times> json) list"

text \<open>
  The value of an attribute field as \<open>GetField\<close> returns it: \<open>None\<close>, a string,
  an integer, a float, or a value of another Python type (a list, a date, bytes).
\<close>

datatype field_value = FNull | FString string | FInteger int | FReal real | FOther

text \<open>
  A feature of an input layer: its attribute fields in the order of the layer's schema
  (\<open>GetFieldIndex\<close> and \<open>GetField\<close> are lookups in it) and its geometry
  (\<open>GetGeometryRef()\<close>, possibly \<open>None\<close>); field names are looked up as they
  are written. A layer has an optional spatial reference system, given by its definition
  text, and its features; \<open>ds.GetLayer()\<close> may be \<open>None\<close>.
\<close>

record feature =
  field_values :: "(string \<times> field_value) list"
  geometry :: "geometry option"

type_synonym srs = string

record layer =
  GetSpatialRef :: "srs option"
  features :: "feature list"

record dataset =
  GetLayer :: "layer option"

text \<open>
  The geometric predicates and the formatting of floats are not code of this repository:
  they belong to the geometry library (OGR, OSR) and to the Python runtime. The program
  is modelled over an arbitrary implementation of them.
  \<open>Transform g zone north\<close> stands for building the coordinate transformation from
  EPSG:4326 to the UTM zone and applying it to a clone of \<open>g\<close>; \<open>None\<close> is the
  \<open>RuntimeError\<close> the source catches. \<open>CreateGeometryFromJson\<close> is applied to
  \<open>json.dumps\<close> of a document, \<open>ExportToJson\<close> is followed by \<open>json.loads\<close>;
  their \<open>Inl\<close> is a raised exception. \<open>format_f d x\<close> is Python's
  \<open>f"{x:.df}"\<close>, \<open>format_d\<close> and \<open>format_value\<close> are \<open>f"{n}"\<close> for an
  integer and for a field value, \<open>upper\<close> is \<open>str.upper\<close>. \<open>IsSame\<close> is the
  library's comparison of two spatial reference systems and \<open>ImportFromEPSG\<close> builds
  one from an EPSG code.
\<close>

datatype error = KeyError | TypeError | AttributeError | RuntimeError | OSError
  | FileNotFoundError

record extern =
  IsEmpty :: "geometry \<Rightarrow> bool"
  IsValid :: "geometry \<Rightarrow> bool"
  Buffer :: "geometry \<Rightarrow> real \<Rightarrow> geometry option"
  SimplifyPreserveTopology :: "geometry \<Rightarrow> real \<Rightarrow> geometry option"
  Centroid :: "geometry \<Rightarrow> geometry option"
  Transform :: "geometry \<Rightarrow> int \<Rightarrow> bool \<Rightarrow> geometry option"
  GetArea :: "geometry \<Rightarrow> real"
  CreateGeometryFromJson :: "json \<Rightarrow> error + geometry option"
  ExportToJson :: "geometry \<Rightarrow> error + json"
  format_f :: "nat \<Rightarrow> real \<Rightarrow> string"
  format_d :: "int \<Rightarrow> string"
  format_value :: "field_value \<Rightarrow> string"
  upper :: "string \<Rightarrow> string"
  ImportFromEPSG :: "int \<Rightarrow> srs"
  IsSame :: "srs \<Rightarrow> srs \<Rightarrow> error + bool"

section \<open>validation.py\<close>

definition ID_FIELD_NAME :: string where "ID_FIELD_NAME = ''qa_assistant_id''"
definition MIN_AREA_HA_FOR_POLYGON :: real where "MIN_AREA_HA_FOR_POLYGON = 4.0"
definition METERS_SQ_PER_HECTARE :: real where "METERS_SQ_PER_HECTARE = 10000.0"
definition SIMPLIFY_TOLERANCE :: real where "SIMPLIFY_TOLERANCE = 0.0001"

fun get_all_points :: "geometry \<Rightarrow> (real \<times> real) list" where
  "get_all_points (Geometry t ps subs) =
     (if t AND 255 \<in> set [wkbPoint, wkbMultiPoint, wkbLineString, wkbMultiLineString] then ps
      else if t AND 255 \<in> set [wkbPolygon, wkbMultiPolygon] then
        concat (map (\<lambda>sub_geom. case sub_geom of None \<Rightarrow> []
                                 | Some g \<Rightarrow> get_all_points g) subs)
      else [])"

text \<open>The test \<open>-180.0 <= lon <= 180.0 and -90.0 <= lat <= 90.0\<close>, which the source
  writes out twice.\<close>

definition in_geographic_bounds :: "real \<Rightarrow> real \<Rightarrow> bool" where
  "in_geographic_bounds lon lat \<longleftrightarrow> -180.0 \<le> lon \<and> lon \<le> 180.0 \<and> -90.0 \<le> lat \<and> lat \<le> 90.0"

text \<open>The \<open>for lon, lat in get_all_points(geom)\<close> loop, left at the first offending vertex.\<close>

fun validate_vertices_loop :: "extern \<Rightarrow> (real \<times> real) list \<Rightarrow> bool \<times> string" where
  "validate_vertices_loop L [] = (True, '''')"
| "validate_vertices_loop L ((lon, lat) # ps) =
     (if \<not> in_geographic_bounds lon lat then
        (False, ''Invalid coordinate range: ['' @ format_f L 5 lon @ '', ''
                  @ format_f L 5 lat @ '']'')
      else validate_vertices_loop L ps)"

definition validate_geometry_vertices :: "extern \<Rightarrow> geometry option \<Rightarrow> bool \<times> string" where
  "validate_geometry_vertices L geom =
     (case geom of
        None \<Rightarrow> (True, '''')
      | Some g \<Rightarrow>
          if IsEmpty L g then (True, '''')
          else validate_vertices_loop L (get_all_points g))"

definition OPTIONAL_FIELDS :: "string list" where
  "OPTIONAL_FIELDS = [''ProductionPlace'', ''ProducerName'', ''ProducerCountry'', ''Area'']"

definition VALID_ISO2_CODES :: "string list" where
  "VALID_ISO2_CODES =
     [''AD'', ''AE'', ''AF'', ''AG'', ''AI'', ''AL'', ''AM'', ''AO'', ''AQ'', ''AR'', ''AS'', ''AT'',
      ''AU'', ''AW'', ''AX'', ''AZ'', ''BA'', ''BB'', ''BD'', ''BE'', ''BF'', ''BG'', ''BH'', ''BI'',
      ''BJ'', ''BL'', ''BM'', ''BN'', ''BO'', ''BQ'', ''BR'', ''BS'', ''BT'', ''BV'', ''BW'', ''BY'',
      ''BZ'', ''CA'', ''CC'', ''CD'', ''CF'', ''CG'', ''CH'', ''CI'', ''CK'', ''CL'', ''CM'', ''CN'',
      ''CO'', ''CR'', ''CU'', ''CV'', ''CW'', ''CX'', ''CY'', ''CZ'', ''DE'', ''DJ'', ''DK'', ''DM'',
      ''DO'', ''DZ'', ''EC'', ''EE'', ''EG'', ''EH'', ''ER'', ''ES'', ''ET'', ''FI'', ''FJ'', ''FK'',
      ''FM'', ''FO'', ''FR'', ''GA'', ''GB'', ''GD'', ''GE'', ''GF'', ''GG'', ''GH'', ''GI'', ''GL'',
      ''GM'', ''GN'', ''GP'', ''GQ'', ''GR'', ''GS'', ''GT'', ''GU'', ''GW'', ''GY'', ''HK'', ''HM'',
      ''HN'', ''HR'', ''HT'', ''HU'', ''ID'', ''IE'', ''IL'', ''IM'', ''IN'', ''IO'', ''IQ'', ''IR'',
      ''IS'', ''IT'', ''JE'', ''JM'', ''JO'', ''JP'', ''KE'', ''KG'', ''KH'', ''KI'', ''KM'', ''KN'',
      ''KP'', ''KR'', ''KW'', ''KY'', ''KZ'', ''LA'', ''LB'', ''LC'', ''LI'', ''LK'', ''LS'', ''LT'',
      ''LU'', ''LV'', ''LY'', ''MA'', ''MC'', ''MD'', ''ME'', ''MF'', ''MG'', ''MH'', ''MK'', ''ML'',
      ''MM'', ''MN'', ''MO'', ''MP'', ''MQ'', ''MR'', ''MS'', ''MT'', ''MU'', ''MV'', ''MW'', ''MX'',
      ''MY'', ''MZ'', ''NA'', ''NC'', ''NE'', ''NF'', ''NG'', ''NI'', ''NL'', ''NO'', ''NP'', ''NR'',
      ''NU'', ''NZ'', ''OM'', ''PA'', ''PE'', ''PF'', ''PG'', ''PH'', ''PK'', ''PL'', ''PM'', ''PN'',
      ''PR'', ''PS'', ''PT'', ''PW'', ''PY'', ''QA'', ''RE'', ''RO'', ''RS'', ''RU'', ''RW'', ''SA'',
      ''SB'', ''SC'', ''SD'', ''SE'', ''SG'', ''SH'', ''SI'', ''SJ'', ''SK'', ''SL'', ''SM'', ''SN'',
      ''SO'', ''SR'', ''SS'', ''ST'', ''SV'', ''SX'', ''SY'', ''SZ'', ''TC'', ''TD'', ''TF'', ''TG'',
      ''TH'', ''TJ'', ''TK'', ''TL'', ''TM'', ''TN'', ''TO'', ''TR'', ''TT'', ''TV'', ''TW'', ''TZ'',
      ''UA'', ''UG'', ''UM'', ''US'', ''UY'', ''UZ'', ''VA'', ''VC'', ''VE'', ''VG'', ''VI'', ''VN'',
      ''VU'', ''WF'', ''WS'', ''YE'', ''YT'', ''ZA'', ''ZM'', ''ZW'']"

definition join :: "string \<Rightarrow> string list \<Rightarrow> string" where
  "join sep xs = (case xs of [] \<Rightarrow> [] | y # ys \<Rightarrow> y @ concat (map (\<lambda>z. sep @ z) ys))"

definition check_field :: "extern \<Rightarrow> feature \<Rightarrow> string \<Rightarrow> string" where
  "check_field L feature field_name =
     (case map_of (field_values feature) field_name of
        None \<Rightarrow> ''Not included''
      | Some v \<Rightarrow>
          if field_name = ''ProducerCountry'' then
            (case v of
               FString s \<Rightarrow>
                 if upper L s \<in> set VALID_ISO2_CODES then ''OK''
                 else ''Invalid value: '' @ [CHR 0x27] @ format_value L v @ [CHR 0x27]
             | _ \<Rightarrow> ''Invalid value: '' @ [CHR 0x27] @ format_value L v @ [CHR 0x27])
          else if field_name = ''Area'' then
            (case v of FInteger _ \<Rightarrow> ''OK'' | FReal _ \<Rightarrow> ''OK'' | _ \<Rightarrow> ''Invalid data type'')
          else ''OK'')"

definition check_optional_properties :: "extern \<Rightarrow> feature \<Rightarrow> string" where
  "check_optional_properties L feature = join ''; '' (map (check_field L feature) OPTIONAL_FIELDS)"

text \<open>Python's \<open>needle in text\<close> on strings.\<close>

fun contains :: "string \<Rightarrow> string \<Rightarrow> bool" where
  "contains [] needle = (needle = [])"
| "contains (c # cs) needle = (take (length needle) (c # cs) = needle \<or> contains cs needle)"

definition summarize_attribute_status :: "string list \<Rightarrow> string" where
  "summarize_attribute_status all_notes =
     (if all_notes = [] then ''N/A''
      else
        let has_issues = list_ex (\<lambda>note. contains note ''Invalid'') all_notes;
            all_ok = list_all (\<lambda>note. note = ''OK; OK; OK; OK'') all_notes
        in if all_ok then ''All optional attributes valid''
           else if has_issues then ''Attribute issues found''
           else ''Some attributes not included'')"

definition validate_global_crs :: "extern \<Rightarrow> dataset \<Rightarrow> bool" where
  "validate_global_crs L ds =
     (let wgs84_srs = ImportFromEPSG L 4326 in
      case GetLayer ds of
        None \<Rightarrow> False
      | Some layer \<Rightarrow>
          (case GetSpatialRef layer of
             None \<Rightarrow> False
           | Some srs \<Rightarrow>
               (case IsSame L srs wgs84_srs of
                  Inl e \<Rightarrow> False
                | Inr same \<Rightarrow> same)))"

section \<open>transformations.py: classification and area\<close>

text \<open>
  \<open>validate_and_fix_geometry\<close> returns the triple (accepted, reason, action). The two
  assignments to its parameter \<open>geom\<close> (the repaired and the simplified geometry) are
  bindings of a local name which the function never reads again and never returns.
\<close>

definition validate_and_fix_geometry ::
    "extern \<Rightarrow> geometry option \<Rightarrow> bool \<Rightarrow> bool \<Rightarrow> bool \<times> string \<times> string option" where
  "validate_and_fix_geometry L geom autofix simplify =
     (case geom of
        None \<Rightarrow> (False, ''Missing or empty geometry'', None)
      | Some g \<Rightarrow>
          if IsEmpty L g then (False, ''Missing or empty geometry'', None)
          else
            let geom_type = GetGeometryType g AND 255 in
            if geom_type \<in> set [wkbLineString, wkbMultiLineString] then
              (False, ''Invalid geometry type (LineString)'', None)
            else if \<not> IsValid L g then
              (if autofix then
                 (case Buffer L g 0 of
                    None \<Rightarrow> (False, ''Invalid geometry (unfixable)'', None)
                  | Some fixed_geom \<Rightarrow>
                      if \<not> IsEmpty L fixed_geom \<and> IsValid L fixed_geom then
                        (let geom = Some fixed_geom in (True, ''Valid'', Some ''Auto-fixed''))
                      else (False, ''Invalid geometry (unfixable)'', None))
               else (False, ''Invalid geometry'', None))
            else if geom_type = wkbPolygon \<and> GetGeometryCount g > 1 then
              (False, ''Polygon with holes not supported'', None)
            else
              (case validate_geometry_vertices L (Some g) of
                 (valid_verts, reason) \<Rightarrow>
                   if \<not> valid_verts then (False, reason, None)
                   else if simplify \<and> geom_type = wkbPolygon then
                     (let geom = SimplifyPreserveTopology L g SIMPLIFY_TOLERANCE
                      in (True, ''Valid'', Some ''Simplified''))
                   else (True, ''Valid'', None)))"

text \<open>Python's \<open>int(x)\<close> on a float truncates towards zero.\<close>

definition py_int :: "real \<Rightarrow> int" where
  "py_int x = (if 0 \<le> x then \<lfloor>x\<rfloor> else \<lceil>x\<rceil>)"

definition get_area_in_hectares :: "extern \<Rightarrow> geometry option \<Rightarrow> real option" where
  "get_area_in_hectares L geom =
     (case geom of
        None \<Rightarrow> Some 0.0
      | Some g \<Rightarrow>
          if IsEmpty L g then Some 0.0
          else
            (case Centroid L g of
               None \<Rightarrow> None
             | Some centroid \<Rightarrow>
                 let lon = GetX centroid; lat = GetY centroid in
                 if \<not> in_geographic_bounds lon lat then None
                 else
                   let utm_zone = py_int ((lon + 180) / 6) + 1 in
                   (case Transform L g utm_zone (lat \<ge> 0) of
                      None \<Rightarrow> None
                    | Some geom_clone \<Rightarrow> Some (GetArea L geom_clone / METERS_SQ_PER_HECTARE))))"

section \<open>transformations.py: partitioning a dataset\<close>

text \<open>
  The statistics dictionary, a row of the detailed report, and a feature written to one
  of the three output layers. \<open>SetFrom\<close> copies the attribute fields and the geometry
  of the input feature; \<open>SetField\<close> sets one attribute. The field definitions of the
  output layers are created before the loop and do not depend on the features.
\<close>

record stats =
  total :: int
  valid_large :: int
  review :: int
  autofixed :: int
  candidates :: int

record row =
  original_filename :: string
  qa_assistant_id :: field_value
  final_status :: string
  action_taken :: string
  reason_notes :: string
  attribute_status :: string

record out_feature =
  out_fields :: "(string \<times> field_value) list"
  out_geometry :: "geometry option"

definition SetFrom :: "feature \<Rightarrow> out_feature" where
  "SetFrom in_feature = \<lparr> out_fields = field_values in_feature, out_geometry = geometry in_feature \<rparr>"

definition SetGeometry :: "out_feature \<Rightarrow> geometry option \<Rightarrow> out_feature" where
  "SetGeometry f geom = f\<lparr> out_geometry := geom \<rparr>"

definition SetField :: "out_feature \<Rightarrow> string \<Rightarrow> field_value \<Rightarrow> out_feature" where
  "SetField f name v = f\<lparr> out_fields := AList.update name v (out_fields f) \<rparr>"

text \<open>Python's \<open>a or b\<close> for an optional string \<open>a\<close>.\<close>

definition py_or :: "string option \<Rightarrow> string \<Rightarrow> string" where
  "py_or a b = (case a of None \<Rightarrow> b | Some s \<Rightarrow> if s = [] then b else s)"

text \<open>
  The state of the loop over the features: the statistics, the detailed rows and the
  contents of the three output layers.
\<close>

record pstate =
  stats :: stats
  detailed_rows :: "row list"
  review_layer :: "out_feature list"
  candidates_layer :: "out_feature list"
  valid_layer :: "out_feature list"

definition initial_pstate :: pstate where
  "initial_pstate =
     \<lparr> stats = \<lparr> total = 0, valid_large = 0, review = 0, autofixed = 0, candidates = 0 \<rparr>,
       detailed_rows = [], review_layer = [], candidates_layer = [], valid_layer = [] \<rparr>"

text \<open>
  One iteration of \<open>for in_feature in in_layer\<close>. \<open>GetField\<close> raises
  \<open>KeyError\<close> for a field the feature does not have; \<open>geom.GetGeometryType()\<close>
  raises \<open>AttributeError\<close> when \<open>geom\<close> is \<open>None\<close>.
\<close>

definition process_feature ::
    "extern \<Rightarrow> string \<Rightarrow> bool \<Rightarrow> bool \<Rightarrow> bool \<Rightarrow> pstate \<Rightarrow> feature \<Rightarrow> error + pstate" where
  "process_feature L dataset_stem simplify autofix identify_candidates st0 in_feature =
     (let st = st0\<lparr> stats := (stats st0)\<lparr> total := total (stats st0) + 1 \<rparr> \<rparr>;
          geom = geometry in_feature
      in
      case map_of (field_values in_feature) ID_FIELD_NAME of
        None \<Rightarrow> Inl KeyError
      | Some qa_id \<Rightarrow>
          let attribute_status = check_optional_properties L in_feature in
          (case validate_and_fix_geometry L geom autofix simplify of
             (is_valid, reason, action) \<Rightarrow>
               let st = (if action = Some ''Auto-fixed''
                         then st\<lparr> stats := (stats st)\<lparr> autofixed := autofixed (stats st) + 1 \<rparr> \<rparr>
                         else st)
               in
               if \<not> is_valid then
                 Inr (st\<lparr> stats := (stats st)\<lparr> review := review (stats st) + 1 \<rparr>,
                          review_layer := review_layer st @
                            [SetField (SetGeometry (SetFrom in_feature) geom)
                               ''qa_issue'' (FString reason)],
                          detailed_rows := detailed_rows st @
                            [\<lparr> original_filename = dataset_stem @ ''.geojson'',
                               qa_assistant_id = qa_id,
                               final_status = ''Requires Review'',
                               action_taken = py_or action ''Segregated'',
                               reason_notes = reason,
                               attribute_status = attribute_status \<rparr>] \<rparr>)
               else
                 (case get_area_in_hectares L geom of
                    None \<Rightarrow>
                      (let reason = ''Could not calculate area'' in
                       Inr (st\<lparr> stats := (stats st)\<lparr> review := review (stats st) + 1 \<rparr>,
                                review_layer := review_layer st @
                                  [SetField (SetFrom in_feature) ''qa_issue'' (FString reason)],
                                detailed_rows := detailed_rows st @
                                  [\<lparr> original_filename = dataset_stem @ ''.geojson'',
                                     qa_assistant_id = qa_id,
                                     final_status = ''Requires Review'',
                                     action_taken = py_or action ''Segregated'',
                                     reason_notes = reason,
                                     attribute_status = attribute_status \<rparr>] \<rparr>))
                  | Some area_ha \<Rightarrow>
                      let valid_feature = SetGeometry (SetFrom in_feature) geom in
                      (case geom of
                         None \<Rightarrow> Inl AttributeError
                       | Some g \<Rightarrow>
                           let geom_type = GetGeometryType g AND 255 in
                           if identify_candidates \<and> geom_type = wkbPolygon
                              \<and> area_ha < MIN_AREA_HA_FOR_POLYGON then
                             Inr (st\<lparr> stats := (stats st)\<lparr> candidates := candidates (stats st) + 1 \<rparr>,
                                      candidates_layer := candidates_layer st @ [valid_feature],
                                      detailed_rows := detailed_rows st @
                                        [\<lparr> original_filename = dataset_stem @ ''.geojson'',
                                           qa_assistant_id = qa_id,
                                           final_status = ''Candidate for Conversion'',
                                           action_taken = py_or action ''Identified'',
                                           reason_notes = ''Area is '' @ format_f L 2 area_ha
                                                            @ '' ha (< 4ha)'',
                                           attribute_status = attribute_status \<rparr>] \<rparr>)
                           else
                             Inr (st\<lparr> stats := (stats st)\<lparr> valid_large := valid_large (stats st) + 1 \<rparr>,
                                      valid_layer := valid_layer st @ [valid_feature],
                                      detailed_rows := detailed_rows st @
                                        [\<lparr> original_filename = dataset_stem @ ''.geojson'',
                                           qa_assistant_id = qa_id,
                                           final_status = ''Valid'',
                                           action_taken = py_or action ''N/A'',
                                           reason_notes = ''Valid'',
                                           attribute_status = attribute_status \<rparr>] \<rparr>)))))"

fun partition_loop ::
    "extern \<Rightarrow> string \<Rightarrow> bool \<Rightarrow> bool \<Rightarrow> bool \<Rightarrow> pstate \<Rightarrow> feature list \<Rightarrow> error + pstate" where
  "partition_loop L dataset_stem simplify autofix identify_candidates st [] = Inr st"
| "partition_loop L dataset_stem simplify autofix identify_candidates st (in_feature # rest) =
     (case process_feature L dataset_stem simplify autofix identify_candidates st in_feature of
        Inl e \<Rightarrow> Inl e
      | Inr st' \<Rightarrow> partition_loop L dataset_stem simplify autofix identify_candidates st' rest)"

text \<open>
  \<open>partition_and_process_dataset\<close> returns \<open>(stats, detailed_rows)\<close> and leaves the
  three layers in the review, candidates and valid directories; the model returns the
  final state, which holds all five. A dataset without a layer raises at
  \<open>in_layer.GetSpatialRef()\<close>.
\<close>

definition partition_and_process_dataset ::
    "extern \<Rightarrow> dataset \<Rightarrow> string \<Rightarrow> bool \<Rightarrow> bool \<Rightarrow> bool \<Rightarrow> error + pstate" where
  "partition_and_process_dataset L ds dataset_stem simplify autofix identify_candidates =
     (case GetLayer ds of
        None \<Rightarrow> Inl AttributeError
      | Some in_layer \<Rightarrow>
          partition_loop L dataset_stem simplify autofix identify_candidates initial_pstate
            (features in_layer))"

section \<open>core.py: the validation step of a run\<close>

text \<open>
  A row of the summary report: \<open>row_stats\<close> is \<open>None\<close> when the statistics
  dictionary passed is empty (the five columns then read "N/A").
  \<open>log_to_summary_report\<close> appends the row; an exception while writing is swallowed
  by the source, so the row is lost when the report is not \<open>writable\<close>.
\<close>

record summary_row =
  dataset_name :: string
  initial_status :: string
  processing_status :: string
  row_stats :: "stats option"
  row_attribute_status :: string
  row_reason :: string

definition log_to_summary_report ::
    "bool \<Rightarrow> summary_row list \<Rightarrow> string \<Rightarrow> string \<Rightarrow> string \<Rightarrow> stats option \<Rightarrow> string \<Rightarrow> string
       \<Rightarrow> summary_row list" where
  "log_to_summary_report writable report name initial processing stats_opt attr_status reason =
     (if writable then
        report @ [\<lparr> dataset_name = name, initial_status = initial, processing_status = processing,
                    row_stats = stats_opt, row_attribute_status = attr_status,
                    row_reason = reason \<rparr>]
      else report)"

text \<open>
  An exploded dataset file as the run meets it: its name and stem, what
  \<open>io.open_dataset\<close> returns for it (\<open>None\<close> also for a data source that Python's
  \<open>not ds\<close> takes as false), and whether its components can be moved
  (\<open>shutil.move\<close> raises otherwise). The state of the run: the summary report, the
  detailed rows collected so far, the output of the partitioner per dataset stem, and
  the datasets moved to the directory of globally invalid datasets.
\<close>

record exploded_file =
  file_name :: string
  file_stem :: string
  open_dataset :: "dataset option"
  movable :: bool

record run_state =
  summary_report :: "summary_row list"
  all_detailed_rows :: "row list"
  partitioned :: "(string \<times> pstate) list"
  invalid_global :: "string list"

record assistant =
  simplify_geometries :: bool
  autofix_geometries :: bool
  identify_candidates :: bool

definition EXPECTED_EPSG :: string where "EXPECTED_EPSG = ''4326''"

definition move_and_log_dataset ::
    "bool \<Rightarrow> run_state \<Rightarrow> exploded_file \<Rightarrow> string \<Rightarrow> string \<Rightarrow> string \<Rightarrow> error + run_state" where
  "move_and_log_dataset writable st dataset_path status reason original_name =
     (if \<not> movable dataset_path then Inl OSError
      else Inr (st\<lparr> invalid_global := invalid_global st @ [file_name dataset_path],
                    summary_report :=
                      log_to_summary_report writable (summary_report st) original_name status
                        ''SKIPPED'' None [] reason \<rparr>))"

text \<open>
  The body of the loop of step 3 of \<open>EudrGisQaAssistant.run\<close>, for one exploded
  dataset. The progress callback and the deletion of intermediate files do not touch the
  state modelled here.
\<close>

definition run_validate_dataset ::
    "extern \<Rightarrow> assistant \<Rightarrow> bool \<Rightarrow> run_state \<Rightarrow> exploded_file \<Rightarrow> error + run_state" where
  "run_validate_dataset L self writable st dataset_path =
     (case open_dataset dataset_path of
        None \<Rightarrow> Inr st
      | Some ds \<Rightarrow>
          let original_name = file_name dataset_path in
          if \<not> validate_global_crs L ds then
            move_and_log_dataset writable st dataset_path ''WRONG_EPSG''
              (''EPSG is not '' @ EXPECTED_EPSG) original_name
          else
            (case partition_and_process_dataset L ds (file_stem dataset_path)
                    (simplify_geometries self) (autofix_geometries self)
                    (identify_candidates self) of
               Inl e \<Rightarrow> Inl e
             | Inr result \<Rightarrow>
                 let partition_stats = stats result;
                     rows = detailed_rows result;
                     status = (if review partition_stats > 0 \<or> candidates partition_stats > 0
                               then ''PROCESSED_WITH_ISSUES'' else ''PROCESSED_CLEAN'');
                     note_parts =
                       (if review partition_stats > 0
                        then [format_d L (review partition_stats) @ '' features for review'']
                        else [])
                       @ (if candidates partition_stats > 0
                          then [format_d L (candidates partition_stats) @ '' small polygons found'']
                          else []);
                     attribute_summary = summarize_attribute_status (map attribute_status rows);
                     notes = (if join '' '' note_parts = [] then ''All features are valid.''
                              else join '' '' note_parts)
                 in Inr (st\<lparr> all_detailed_rows := all_detailed_rows st @ rows,
                               partitioned := partitioned st @ [(file_stem dataset_path, result)],
                               summary_report :=
                                 log_to_summary_report writable (summary_report st) original_name
                                   ''PASSED_PRECHECK'' status (Some partition_stats)
                                   attribute_summary notes \<rparr>)))"

fun run_validate_loop ::
    "extern \<Rightarrow> assistant \<Rightarrow> bool \<Rightarrow> run_state \<Rightarrow> exploded_file list \<Rightarrow> error + run_state" where
  "run_validate_loop L self writable st [] = Inr st"
| "run_validate_loop L self writable st (dataset_path # rest) =
     (case run_validate_dataset L self writable st dataset_path of
        Inl e \<Rightarrow> Inl e
      | Inr st' \<Rightarrow> run_validate_loop L self writable st' rest)"

section \<open>transformations.py: converting candidates to points\<close>

subsection \<open>Python operations on strings and JSON values\<close>

text \<open>
  \<open>s.split(sep)\<close> for a separator that is not empty.
\<close>

fun split_on :: "string \<Rightarrow> string \<Rightarrow> string list" where
  "split_on sep [] = [[]]"
| "split_on sep (c # cs) =
     (if sep \<noteq> [] \<and> take (length sep) (c # cs) = sep then
        [] # split_on sep (drop (length sep) (c # cs))
      else
        (case split_on sep cs of
           [] \<Rightarrow> [[c]]
         | w # ws \<Rightarrow> (c # w) # ws))"

definition first_part :: "string list \<Rightarrow> string" where
  "first_part parts = (case parts of [] \<Rightarrow> [] | x # _ \<Rightarrow> x)"

text \<open>\<open>"_".join(qa_id.split('_')[:-1]).split('-p')[0]\<close>\<close>

definition original_stem_of :: "string \<Rightarrow> string" where
  "original_stem_of qa_id = first_part (split_on ''-p'' (join ''_'' (butlast (split_on ''_'' qa_id))))"

text \<open>
  \<open>d[k]\<close>, \<open>d.get(k)\<close>, \<open>d.get(k, default)\<close>, \<open>d[k] = v\<close>, \<open>k in d\<close>,
  iteration and truth value, on a value that \<open>json.load\<close> returned; each raises on the values
  Python raises on.
\<close>

definition py_getitem :: "json \<Rightarrow> string \<Rightarrow> error + json" where
  "py_getitem d k =
     (case d of
        JObj kv \<Rightarrow> (case map_of kv k of None \<Rightarrow> Inl KeyError | Some v \<Rightarrow> Inr v)
      | _ \<Rightarrow> Inl TypeError)"

definition py_get_default :: "json \<Rightarrow> string \<Rightarrow> json \<Rightarrow> error + json" where
  "py_get_default d k dflt =
     (case d of
        JObj kv \<Rightarrow> (case map_of kv k of None \<Rightarrow> Inr dflt | Some v \<Rightarrow> Inr v)
      | _ \<Rightarrow> Inl AttributeError)"

definition py_get :: "json \<Rightarrow> string \<Rightarrow> error + json" where
  "py_get d k = py_get_default d k JNull"

definition py_setitem :: "json \<Rightarrow> string \<Rightarrow> json \<Rightarrow> error + json" where
  "py_setitem d k v =
     (case d of
        JObj kv \<Rightarrow> Inr (JObj (AList.update k v kv))
      | _ \<Rightarrow> Inl TypeError)"

definition py_contains :: "string \<Rightarrow> json \<Rightarrow> error + bool" where
  "py_contains k d =
     (case d of
        JObj kv \<Rightarrow> Inr (k \<in> fst ` set kv)
      | JArr xs \<Rightarrow> Inr (JStr k \<in> set xs)
      | JStr s \<Rightarrow> Inr (contains s k)
      | _ \<Rightarrow> Inl TypeError)"

definition py_iter :: "json \<Rightarrow> error + json list" where
  "py_iter v =
     (case v of
        JArr xs \<Rightarrow> Inr xs
      | JObj kv \<Rightarrow> Inr (map (\<lambda>(k, _). JStr k) kv)
      | JStr s \<Rightarrow> Inr (map (\<lambda>c. JStr [c]) s)
      | _ \<Rightarrow> Inl TypeError)"

definition py_truthy :: "json \<Rightarrow> bool" where
  "py_truthy v =
     (case v of
        JNull \<Rightarrow> False
      | JBool b \<Rightarrow> b
      | JNum x \<Rightarrow> x \<noteq> 0
      | JStr s \<Rightarrow> s \<noteq> []
      | JArr xs \<Rightarrow> xs \<noteq> []
      | JObj kv \<Rightarrow> kv \<noteq> [])"

subsection \<open>The stores of a session\<close>

text \<open>
  What the function finds on disk: whether the session has a dated results directory;
  for each dataset stem the candidates file and the valid file derived from it (absent,
  or present and either unreadable, that is \<open>open\<close> or \<open>json.load\<close> raises, or
  holding a document); whether writing each of them succeeds; and the detailed report,
  a list of rows that map column names to strings. A write that raises is taken to leave
  the file as it was.
\<close>

datatype 'a stored = Unreadable | Content 'a

record filesystem =
  dated_output_dir :: bool
  candidate_files :: "string \<Rightarrow> json stored option"
  valid_files :: "string \<Rightarrow> json stored option"
  candidates_writable :: "string \<Rightarrow> bool"
  valid_writable :: "string \<Rightarrow> bool"
  detailed_report :: "(string \<times> string) list list stored option"
  report_writable :: bool

definition load_json :: "json stored \<Rightarrow> error + json" where
  "load_json f = (case f of Unreadable \<Rightarrow> Inl OSError | Content d \<Rightarrow> Inr d)"

subsection \<open>The conversion\<close>

text \<open>
  The counters of the whole call, the two lists local to one candidates file, and an
  entry of the dictionary \<open>converted_features\<close>.
\<close>

record counters =
  converted_count :: int
  failed_ids :: "json list"

record group_locals =
  new_point_features :: "json list"
  candidates_to_remove :: "json list"

record group_data =
  existing_features :: json
  new_features :: "json list"
  to_remove :: "json list"

text \<open>The first loop: \<open>candidates_by_file\<close>, a dictionary in insertion order.\<close>

fun group_by_file :: "(string \<times> string list) list \<Rightarrow> string list \<Rightarrow> (string \<times> string list) list" where
  "group_by_file candidates_by_file [] = candidates_by_file"
| "group_by_file candidates_by_file (qa_id # rest) =
     (let original_stem = original_stem_of qa_id;
          ids = (case map_of candidates_by_file original_stem of None \<Rightarrow> [] | Some l \<Rightarrow> l)
      in group_by_file (AList.update original_stem (ids @ [qa_id]) candidates_by_file) rest)"

text \<open>
  The inner \<open>try\<close> of the loop over the features of a candidates file (lines 234-255):
  any exception appends the identifier to \<open>failed_ids\<close>.
\<close>

definition convert_candidate ::
    "extern \<Rightarrow> counters \<times> group_locals \<Rightarrow> json \<Rightarrow> json \<Rightarrow> json \<Rightarrow> counters \<times> group_locals" where
  "convert_candidate L acc feature properties qa_id =
     (let failed = (fst acc\<lparr> failed_ids := failed_ids (fst acc) @ [qa_id] \<rparr>, snd acc) in
      case py_getitem feature ''geometry'' of
        Inl e \<Rightarrow> failed
      | Inr polygon_geom \<Rightarrow>
          (case CreateGeometryFromJson L polygon_geom of
             Inl e \<Rightarrow> failed
           | Inr None \<Rightarrow> failed
           | Inr (Some geom) \<Rightarrow>
               if IsEmpty L geom then failed
               else
                 (case Centroid L geom of
                    None \<Rightarrow> failed
                  | Some centroid \<Rightarrow>
                      (case ExportToJson L centroid of
                         Inl e \<Rightarrow> failed
                       | Inr centroid_json \<Rightarrow>
                           (case py_setitem feature ''geometry'' centroid_json of
                              Inl e \<Rightarrow> failed
                            | Inr feature1 \<Rightarrow>
                                (case (case py_contains ''Area'' properties of
                                         Inl e \<Rightarrow> Inl e
                                       | Inr False \<Rightarrow> Inr feature1
                                       | Inr True \<Rightarrow>
                                           (case py_setitem properties ''Area''
                                                   (JNum MIN_AREA_HA_FOR_POLYGON) of
                                              Inl e \<Rightarrow> Inl e
                                            | Inr properties1 \<Rightarrow>
                                                py_setitem feature1 ''properties'' properties1)) of
                                   Inl e \<Rightarrow> failed
                                 | Inr feature2 \<Rightarrow>
                                     (fst acc\<lparr> converted_count := converted_count (fst acc) + 1 \<rparr>,
                                      snd acc\<lparr> new_point_features :=
                                                 new_point_features (snd acc) @ [feature2],
                                               candidates_to_remove :=
                                                 candidates_to_remove (snd acc) @ [qa_id] \<rparr>)))))))"

text \<open>
  The loop over the features of a candidates file. An exception outside the inner
  \<open>try\<close> leaves the loop; what was counted and appended before stays.
\<close>

fun convert_features ::
    "extern \<Rightarrow> string list \<Rightarrow> counters \<times> group_locals \<Rightarrow> json list
       \<Rightarrow> (counters \<times> group_locals) \<times> error option" where
  "convert_features L ids acc [] = (acc, None)"
| "convert_features L ids acc (feature # rest) =
     (case py_getitem feature ''properties'' of
        Inl e \<Rightarrow> (acc, Some e)
      | Inr properties \<Rightarrow>
          (case py_get properties ID_FIELD_NAME of
             Inl e \<Rightarrow> (acc, Some e)
           | Inr qa_id \<Rightarrow>
               if qa_id \<in> JStr ` set ids then
                 convert_features L ids (convert_candidate L acc feature properties qa_id) rest
               else convert_features L ids acc rest))"

text \<open>
  The body of the second loop, for one entry of \<open>candidates_by_file\<close>: the state is
  the counters and the dictionary \<open>converted_features\<close>.
\<close>

definition read_group ::
    "extern \<Rightarrow> filesystem \<Rightarrow> counters \<times> (string \<times> group_data) list \<Rightarrow> string \<times> string list
       \<Rightarrow> counters \<times> (string \<times> group_data) list" where
  "read_group L fs st entry =
     (let original_stem = fst entry; ids = snd entry;
          all_failed = (\<lambda>c. (c\<lparr> failed_ids := failed_ids c @ map JStr ids \<rparr>, snd st))
      in
      case candidate_files fs original_stem of
        None \<Rightarrow> all_failed (fst st)
      | Some candidate_file \<Rightarrow>
          (case (case valid_files fs original_stem of
                   None \<Rightarrow> Inr (JArr [])
                 | Some valid_file \<Rightarrow>
                     (case load_json valid_file of
                        Inl e \<Rightarrow> Inl e
                      | Inr valid_data \<Rightarrow> py_get_default valid_data ''features'' (JArr []))) of
             Inl e \<Rightarrow> all_failed (fst st)
           | Inr existing_valid_features \<Rightarrow>
               (case load_json candidate_file of
                  Inl e \<Rightarrow> all_failed (fst st)
                | Inr candidates_data \<Rightarrow>
                    (case py_get_default candidates_data ''features'' (JArr []) of
                       Inl e \<Rightarrow> all_failed (fst st)
                     | Inr feature_list \<Rightarrow>
                         (case py_iter feature_list of
                            Inl e \<Rightarrow> all_failed (fst st)
                          | Inr candidate_features \<Rightarrow>
                              (case convert_features L ids
                                      (fst st, \<lparr> new_point_features = [],
                                                 candidates_to_remove = [] \<rparr>)
                                      candidate_features of
                                 ((c, loc), Some e) \<Rightarrow> all_failed c
                               | ((c, loc), None) \<Rightarrow>
                                   if new_point_features loc \<noteq> [] then
                                     (c, AList.update original_stem
                                           \<lparr> existing_features = existing_valid_features,
                                              new_features = new_point_features loc,
                                              to_remove = candidates_to_remove loc \<rparr>
                                           (snd st))
                                   else (c, snd st)))))))"

fun read_groups ::
    "extern \<Rightarrow> filesystem \<Rightarrow> counters \<times> (string \<times> group_data) list
       \<Rightarrow> (string \<times> string list) list \<Rightarrow> counters \<times> (string \<times> group_data) list" where
  "read_groups L fs st [] = st"
| "read_groups L fs st (entry # rest) = read_groups L fs (read_group L fs st entry) rest"

text \<open>The feature collection written to a store.\<close>

definition feature_collection :: "string \<Rightarrow> json list \<Rightarrow> json" where
  "feature_collection name fs =
     JObj [(''type'', JStr ''FeatureCollection''),
           (''name'', JStr name),
           (''crs'', JObj [(''type'', JStr ''name''),
                           (''properties'',
                            JObj [(''name'', JStr ''urn:ogc:def:crs:OGC:1.3:CRS84'')])]),
           (''features'', JArr fs)]"

text \<open>The loop that collects the candidates which stay in the candidates file.\<close>

fun remaining_candidates :: "json list \<Rightarrow> json list \<Rightarrow> error + json list" where
  "remaining_candidates removed [] = Inr []"
| "remaining_candidates removed (feature # rest) =
     (case py_getitem feature ''properties'' of
        Inl e \<Rightarrow> Inl e
      | Inr properties \<Rightarrow>
          (case py_get properties ID_FIELD_NAME of
             Inl e \<Rightarrow> Inl e
           | Inr qa_id \<Rightarrow>
               (case remaining_candidates removed rest of
                  Inl e \<Rightarrow> Inl e
                | Inr remaining \<Rightarrow>
                    Inr (if qa_id \<in> set removed then remaining else feature # remaining))))"

text \<open>
  The \<open>try\<close> block of the third loop: it writes the valid file, then reads the
  candidates file again and writes it without the converted features. The result is the
  file system when the block is left, and the exception that left it, if any.
\<close>

definition write_stores :: "filesystem \<Rightarrow> string \<Rightarrow> group_data \<Rightarrow> filesystem \<times> error option" where
  "write_stores fs original_stem data =
     (case existing_features data of
        JArr existing \<Rightarrow>
          let all_features = existing @ new_features data in
          if \<not> valid_writable fs original_stem then (fs, Some OSError)
          else
            let fs1 = fs\<lparr> valid_files := (valid_files fs)
                           (original_stem \<mapsto>
                              Content (feature_collection (original_stem @ ''_valid'') all_features)) \<rparr>
            in
            (case candidate_files fs1 original_stem of
               None \<Rightarrow> (fs1, Some FileNotFoundError)
             | Some candidate_file \<Rightarrow>
                 (case load_json candidate_file of
                    Inl e \<Rightarrow> (fs1, Some e)
                  | Inr candidates_data \<Rightarrow>
                      (case py_get_default candidates_data ''features'' (JArr []) of
                         Inl e \<Rightarrow> (fs1, Some e)
                       | Inr feature_list \<Rightarrow>
                           (case py_iter feature_list of
                              Inl e \<Rightarrow> (fs1, Some e)
                            | Inr candidate_features \<Rightarrow>
                                (case remaining_candidates (to_remove data) candidate_features of
                                   Inl e \<Rightarrow> (fs1, Some e)
                                 | Inr remaining \<Rightarrow>
                                     if \<not> candidates_writable fs1 original_stem
                                     then (fs1, Some OSError)
                                     else
                                       (fs1\<lparr> candidate_files := (candidate_files fs1)
                                                (original_stem \<mapsto>
                                                   Content (feature_collection
                                                     (original_stem @ ''_candidates'')
                                                     remaining)) \<rparr>,
                                        None))))))
      | _ \<Rightarrow> (fs, Some TypeError))"

text \<open>
  The handler of the third loop: the identifiers of the new features are appended to
  \<open>failed_ids\<close>. An exception raised here leaves the function.
\<close>

fun fail_new_features :: "json list \<Rightarrow> json list \<Rightarrow> error + json list" where
  "fail_new_features failed [] = Inr failed"
| "fail_new_features failed (feature # rest) =
     (case py_getitem feature ''properties'' of
        Inl e \<Rightarrow> Inl e
      | Inr properties \<Rightarrow>
          (case py_get properties ID_FIELD_NAME of
             Inl e \<Rightarrow> Inl e
           | Inr qa_id \<Rightarrow>
               fail_new_features (if py_truthy qa_id then failed @ [qa_id] else failed) rest))"

definition write_group ::
    "filesystem \<times> counters \<Rightarrow> string \<times> group_data \<Rightarrow> error + filesystem \<times> counters" where
  "write_group st entry =
     (let fs = fst st; c = snd st; original_stem = fst entry; data = snd entry in
      case write_stores fs original_stem data of
        (fs', None) \<Rightarrow> Inr (fs', c)
      | (fs', Some e) \<Rightarrow>
          (case fail_new_features (failed_ids c) (new_features data) of
             Inl e' \<Rightarrow> Inl e'
           | Inr failed \<Rightarrow>
               Inr (fs', c\<lparr> failed_ids := failed,
                            converted_count := converted_count c
                                                 - int (length (new_features data)) \<rparr>)))"

fun write_groups ::
    "filesystem \<times> counters \<Rightarrow> (string \<times> group_data) list \<Rightarrow> error + filesystem \<times> counters" where
  "write_groups st [] = Inr st"
| "write_groups st (entry # rest) =
     (case write_group st entry of
        Inl e \<Rightarrow> Inl e
      | Inr st' \<Rightarrow> write_groups st' rest)"

text \<open>
  The detailed report: the rows whose identifier is among the requested identifiers that
  are not in \<open>failed_ids\<close> are rewritten. \<open>row['qa_assistant_id']\<close> raises
  \<open>KeyError\<close> for a report without that column, outside any \<open>try\<close>.
\<close>

fun rewrite_rows :: "string list \<Rightarrow> (string \<times> string) list list \<Rightarrow> error + (string \<times> string) list list" where
  "rewrite_rows successfully_converted [] = Inr []"
| "rewrite_rows successfully_converted (r # rest) =
     (case map_of r ''qa_assistant_id'' of
        None \<Rightarrow> Inl KeyError
      | Some qa_id \<Rightarrow>
          (case rewrite_rows successfully_converted rest of
             Inl e \<Rightarrow> Inl e
           | Inr rest' \<Rightarrow>
               Inr ((if qa_id \<in> set successfully_converted
                     then AList.update ''action_taken'' ''Converted to Point''
                            (AList.update ''final_status'' ''Valid'' r)
                     else r) # rest')))"

definition reconcile_report :: "filesystem \<Rightarrow> string list \<Rightarrow> json list \<Rightarrow> error + filesystem" where
  "reconcile_report fs qa_ids_to_convert failed =
     (let detailed_report_data =
            (case detailed_report fs of
               None \<Rightarrow> []
             | Some Unreadable \<Rightarrow> []
             | Some (Content rows) \<Rightarrow> rows);
          successfully_converted = filter (\<lambda>qa_id. JStr qa_id \<notin> set failed) qa_ids_to_convert
      in
      case rewrite_rows successfully_converted detailed_report_data of
        Inl e \<Rightarrow> Inl e
      | Inr rows' \<Rightarrow>
          if rows' \<noteq> [] \<and> report_writable fs
          then Inr (fs\<lparr> detailed_report := Some (Content rows') \<rparr>)
          else Inr fs)"

text \<open>
  The whole function: it returns \<open>(converted_count, failed_ids)\<close> and leaves the
  stores and the report changed; \<open>_find_dated_output_dir\<close> raises when the session
  has no results directory.
\<close>

definition batch_convert_candidates_to_points ::
    "extern \<Rightarrow> filesystem \<Rightarrow> string list \<Rightarrow> error + (int \<times> json list) \<times> filesystem" where
  "batch_convert_candidates_to_points L fs qa_ids_to_convert =
     (if \<not> dated_output_dir fs then Inl FileNotFoundError
      else
        let candidates_by_file = group_by_file [] qa_ids_to_convert;
            read = read_groups L fs (\<lparr> converted_count = 0, failed_ids = [] \<rparr>, [])
                     candidates_by_file
        in
        case write_groups (fs, fst read) (snd read) of
          Inl e \<Rightarrow> Inl e
        | Inr (fs1, c) \<Rightarrow>
            (case reconcile_report fs1 qa_ids_to_convert (failed_ids c) of
               Inl e \<Rightarrow> Inl e
             | Inr fs2 \<Rightarrow> Inr ((converted_count c, failed_ids c), fs2)))"

section \<open>Predicates used to state the properties of the conversion\<close>

text \<open>
  The bounding extent of a geometry is the envelope of its vertices: a point lies within
  it when its coordinates lie between the least and the greatest coordinates of the
  vertices.
\<close>

definition within_envelope :: "geometry \<Rightarrow> geometry \<Rightarrow> bool" where
  "within_envelope p g \<longleftrightarrow>
     (let xs = map fst (get_all_points g); ys = map snd (get_all_points g)
      in list_ex (\<lambda>x. x \<le> GetX p) xs \<and> list_ex (\<lambda>x. GetX p \<le> x) xs
         \<and> list_ex (\<lambda>y. y \<le> GetY p) ys \<and> list_ex (\<lambda>y. GetY p \<le> y) ys)"

text \<open>
  \<open>converted_from L ids feature nf\<close>: the candidate feature has properties with an
  identifier among \<open>ids\<close> and a geometry which the library parses, finds not empty
  and gives a centroid for, and \<open>nf\<close> is that feature with its geometry replaced by
  the GeoJSON of the centroid and its \<open>Area\<close> property, if it has one, replaced by
  the threshold. \<open>entry_ok\<close>: an entry of \<open>converted_features\<close> holds the features
  of the valid file of its stem and new features converted from features of the
  candidates file of its stem.
\<close>

definition converted_from :: "extern \<Rightarrow> string list \<Rightarrow> json \<Rightarrow> json \<Rightarrow> bool" where
  "converted_from L ids feature nf \<longleftrightarrow>
     (\<exists>kv props qa_id polygon_geom geom centroid centroid_json.
        feature = JObj kv \<and> map_of kv ''properties'' = Some (JObj props)
        \<and> map_of props ID_FIELD_NAME = Some (JStr qa_id) \<and> qa_id \<in> set ids
        \<and> map_of kv ''geometry'' = Some polygon_geom
        \<and> CreateGeometryFromJson L polygon_geom = Inr (Some geom) \<and> \<not> IsEmpty L geom
        \<and> Centroid L geom = Some centroid
        \<and> ExportToJson L centroid = Inr centroid_json
        \<and> nf = (if ''Area'' \<in> fst ` set props
                 then JObj (AList.update ''properties''
                              (JObj (AList.update ''Area'' (JNum MIN_AREA_HA_FOR_POLYGON) props))
                              (AList.update ''geometry'' centroid_json kv))
                 else JObj (AList.update ''geometry'' centroid_json kv)))"

definition entry_ok :: "extern \<Rightarrow> filesystem \<Rightarrow> string list \<Rightarrow> string \<Rightarrow> group_data \<Rightarrow> bool" where
  "entry_ok L fs ids stem data \<longleftrightarrow>
     (valid_files fs stem = None \<and> existing_features data = JArr []
      \<or> (\<exists>d. valid_files fs stem = Some (Content d)
             \<and> py_get_default d ''features'' (JArr []) = Inr (existing_features data)))
     \<and> (\<exists>d fl feats. candidate_files fs stem = Some (Content d)
            \<and> py_get_default d ''features'' (JArr []) = Inr fl \<and> py_iter fl = Inr feats
            \<and> (\<forall>nf \<in> set (new_features data). \<exists>feature \<in> set feats. converted_from L ids feature nf))"

section \<open>A small implementation of the external library\<close>

text \<open>
  The general theorems hold for every implementation of the external library. To apply
  them to concrete inputs, \<open>sample_lib\<close> implements the library by tables on a
  handful of geometries: a self-intersecting quadrilateral (\<open>bowtie\<close>) which
  zero-distance buffering repairs into \<open>bowtie_fixed\<close>; a rectangle with a hole, a
  spike and vertices east of the antimeridian (\<open>spiked\<close>) which buffering repairs
  into \<open>spiked_fixed\<close> by removing the spike; and two squares near the origin.
\<close>

definition ring :: "(real \<times> real) list \<Rightarrow> geometry option" where
  "ring ps = Some (Geometry 2 ps [])"

definition polygon :: "(real \<times> real) list list \<Rightarrow> geometry" where
  "polygon rings = Geometry 3 [] (map ring rings)"

definition point :: "real \<Rightarrow> real \<Rightarrow> geometry" where
  "point x y = Geometry 1 [(x, y)] []"

definition bowtie :: geometry where
  "bowtie = polygon [[(0, 0), (2, 2), (2, 0), (0, 2), (0, 0)]]"

definition bowtie_fixed :: geometry where
  "bowtie_fixed =
     Geometry 6 []
       [Some (polygon [[(0, 0), (1, 1), (0, 2), (0, 0)]]),
        Some (polygon [[(1, 1), (2, 2), (2, 0), (1, 1)]])]"

definition hole :: "(real \<times> real) list" where
  "hole = [(175, 4), (175, 6), (176, 6), (176, 4), (175, 4)]"

definition spiked :: geometry where
  "spiked =
     polygon [[(170, 0), (190, 0), (200, 0), (190, 0), (190, 10), (170, 10), (170, 0)], hole]"

definition spiked_fixed :: geometry where
  "spiked_fixed = polygon [[(170, 0), (190, 0), (190, 10), (170, 10), (170, 0)], hole]"

definition empty_polygon :: geometry where
  "empty_polygon = Geometry 3 [] []"

definition small_square :: geometry where
  "small_square = polygon [[(0, 0), (0.001, 0), (0.001, 0.001), (0, 0.001), (0, 0)]]"

definition large_square :: geometry where
  "large_square = polygon [[(0, 0), (0.01, 0), (0.01, 0.01), (0, 0.01), (0, 0)]]"

text \<open>
  GeoJSON for the sample library: polygons are read from their coordinate arrays, points
  are written as coordinate pairs.
\<close>

definition json_xy :: "json \<Rightarrow> real \<times> real" where
  "json_xy p = (case p of JArr [JNum x, JNum y] \<Rightarrow> (x, y) | _ \<Rightarrow> (0, 0))"

definition json_ring :: "json \<Rightarrow> (real \<times> real) list" where
  "json_ring r = (case r of JArr ps \<Rightarrow> map json_xy ps | _ \<Rightarrow> [])"

definition sample_from_json :: "json \<Rightarrow> error + geometry option" where
  "sample_from_json j =
     (case (py_getitem j ''type'', py_getitem j ''coordinates'') of
        (Inr (JStr t), Inr (JArr rings)) \<Rightarrow>
          if t = ''Polygon'' then Inr (Some (polygon (map json_ring rings))) else Inr None
      | _ \<Rightarrow> Inr None)"

definition sample_to_json :: "geometry \<Rightarrow> error + json" where
  "sample_to_json g =
     Inr (JObj [(''type'', JStr ''Point''), (''coordinates'', JArr [JNum (GetX g), JNum (GetY g)])])"

definition polygon_json :: "(real \<times> real) list list \<Rightarrow> json" where
  "polygon_json rings =
     JObj [(''type'', JStr ''Polygon''),
           (''coordinates'', JArr (map (\<lambda>r. JArr (map (\<lambda>p. JArr [JNum (fst p), JNum (snd p)]) r)) rings))]"

definition sample_centroid :: "geometry \<Rightarrow> geometry option" where
  "sample_centroid g =
     (if g = bowtie then Some (point 1 1)
      else if g = spiked then Some (point 180.02 5)
      else if g = small_square then Some (point 0.0005 0.0005)
      else if g = large_square then Some (point 0.005 0.005)
      else None)"

definition sample_area :: "geometry \<Rightarrow> real" where
  "sample_area g =
     (if g = small_square then 12321 else if g = large_square then 1232100 else 0)"

definition sample_lib :: extern where
  "sample_lib =
     \<lparr> IsEmpty = (\<lambda>g. get_all_points g = []),
       IsValid = (\<lambda>g. g \<noteq> bowtie \<and> g \<noteq> spiked),
       Buffer = (\<lambda>g d. if g = bowtie then Some bowtie_fixed
                       else if g = spiked then Some spiked_fixed else Some g),
       SimplifyPreserveTopology = (\<lambda>g tol. Some g),
       Centroid = sample_centroid,
       Transform = (\<lambda>g zone north. if zone = 31 \<and> north then Some g else None),
       GetArea = sample_area,
       CreateGeometryFromJson = sample_from_json,
       ExportToJson = sample_to_json,
       format_f = (\<lambda>d x. ''?''),
       format_d = (\<lambda>n. ''?''),
       format_value = (\<lambda>v. case v of FString s \<Rightarrow> s | _ \<Rightarrow> ''?''),
       upper = (\<lambda>s. s),
       ImportFromEPSG = (\<lambda>n. if n = 4326 then ''WGS 84'' else ''?''),
       IsSame = (\<lambda>a b. Inr (a = b)) \<rparr>"

definition sample_feature :: "string \<Rightarrow> geometry option \<Rightarrow> feature" where
  "sample_feature qa_id geom =
     \<lparr> field_values = [(''qa_assistant_id'', FString qa_id)], geometry = geom \<rparr>"

definition sample_dataset :: dataset where
  "sample_dataset =
     \<lparr> GetLayer = Some \<lparr> GetSpatialRef = Some ''WGS 84'',
         features = [sample_feature ''plots_0'' (Some bowtie),
                     sample_feature ''plots_1'' (Some spiked),
                     sample_feature ''plots_2'' (Some small_square),
                     sample_feature ''plots_3'' (Some large_square),
                     sample_feature ''plots_4'' None] \<rparr> \<rparr>"

definition mercator_dataset :: dataset where
  "mercator_dataset =
     \<lparr> GetLayer = Some \<lparr> GetSpatialRef = Some ''WGS 84 / Pseudo-Mercator'',
         features = [sample_feature ''roads_0'' (Some small_square)] \<rparr> \<rparr>"

definition empty_run_state :: run_state where
  "empty_run_state =
     \<lparr> summary_report = [], all_detailed_rows = [], partitioned = [], invalid_global = [] \<rparr>"

text \<open>
  A sample session: the candidates file of the dataset \<open>plots\<close> holds the small
  square \<open>plots_2\<close>, its valid file holds the large square \<open>plots_3\<close>, and the
  detailed report has a row for each and a row for \<open>plots_1\<close>, a feature in review;
  there are no files for any other dataset.
\<close>

definition small_square_feature :: json where
  "small_square_feature =
     JObj [(''type'', JStr ''Feature''),
           (''properties'', JObj [(''qa_assistant_id'', JStr ''plots_2''), (''Area'', JNum 1.2321)]),
           (''geometry'',
            polygon_json [[(0, 0), (0.001, 0), (0.001, 0.001), (0, 0.001), (0, 0)]])]"

definition large_square_feature :: json where
  "large_square_feature =
     JObj [(''type'', JStr ''Feature''),
           (''properties'', JObj [(''qa_assistant_id'', JStr ''plots_3''), (''Area'', JNum 123.21)]),
           (''geometry'',
            polygon_json [[(0, 0), (0.01, 0), (0.01, 0.01), (0, 0.01), (0, 0)]])]"

definition report_row :: "string \<Rightarrow> string \<Rightarrow> string \<Rightarrow> (string \<times> string) list" where
  "report_row qa_id status action =
     [(''original_filename'', ''plots.geojson''), (''qa_assistant_id'', qa_id),
      (''final_status'', status), (''action_taken'', action),
      (''reason_notes'', ''''), (''attribute_status'', '''')]"

definition sample_session :: filesystem where
  "sample_session =
     \<lparr> dated_output_dir = True,
       candidate_files = (\<lambda>stem. if stem = ''plots''
          then Some (Content (feature_collection ''plots_candidates'' [small_square_feature]))
          else None),
       valid_files = (\<lambda>stem. if stem = ''plots''
          then Some (Content (feature_collection ''plots_valid'' [large_square_feature]))
          else None),
       candidates_writable = (\<lambda>stem. True),
       valid_writable = (\<lambda>stem. True),
       detailed_report = Some (Content
          [report_row ''plots_1'' ''Requires Review'' ''Auto-fixed'',
           report_row ''plots_2'' ''Candidate for Conversion'' ''Identified'',
           report_row ''plots_3'' ''Valid'' ''N/A'']),
       report_writable = True \<rparr>"

definition converted_small_square :: json where
  "converted_small_square =
     JObj [(''type'', JStr ''Feature''),
           (''properties'', JObj [(''qa_assistant_id'', JStr ''plots_2''), (''Area'', JNum 4.0)]),
           (''geometry'',
            JObj [(''type'', JStr ''Point''), (''coordinates'', JArr [JNum 0.0005, JNum 0.0005])])]"

text \<open>
  A second implementation of the library, for a polygon with one ring: the centroid is
  computed by the signed-area formula (twice the signed area \<open>a2\<close> and the two moment
  sums of the ring), as geometry libraries compute it. \<open>lopsided_bowtie\<close> is a
  self-intersecting quadrilateral whose two lobes have areas of opposite sign and
  different size; buffering repairs it into its larger lobe. The session
  \<open>lopsided_session\<close> holds it as the candidate \<open>plots_0\<close>.
\<close>

fun ring_sums :: "(real \<times> real) list \<Rightarrow> real \<times> real \<times> real" where
  "ring_sums (p # q # ps) =
     (let c = fst p * snd q - fst q * snd p in
      case ring_sums (q # ps) of
        (a2, sx, sy) \<Rightarrow> (a2 + c, sx + (fst p + fst q) * c, sy + (snd p + snd q) * c))"
| "ring_sums ps = (0, 0, 0)"

definition area_centroid :: "geometry \<Rightarrow> geometry option" where
  "area_centroid g =
     (case ring_sums (get_all_points g) of
        (a2, sx, sy) \<Rightarrow> if a2 = 0 then None else Some (point (sx / (3 * a2)) (sy / (3 * a2))))"

definition lopsided_ring :: "(real \<times> real) list" where
  "lopsided_ring = [(0, 0), (0.0003, 0.0003), (0.0003, 0), (0, 0.0002), (0, 0)]"

definition lopsided_bowtie :: geometry where
  "lopsided_bowtie = polygon [lopsided_ring]"

definition lopsided_fixed :: geometry where
  "lopsided_fixed = polygon [[(0.00012, 0.00012), (0.0003, 0.0003), (0.0003, 0), (0.00012, 0.00012)]]"

definition formula_lib :: extern where
  "formula_lib =
     sample_lib\<lparr> IsValid := (\<lambda>g. g \<noteq> lopsided_bowtie),
                 Buffer := (\<lambda>g d. if g = lopsided_bowtie then Some lopsided_fixed else Some g),
                 Centroid := area_centroid,
                 GetArea := (\<lambda>g. if g = lopsided_bowtie then 185 else 0) \<rparr>"

definition lopsided_feature :: json where
  "lopsided_feature =
     JObj [(''type'', JStr ''Feature''),
           (''properties'', JObj [(''qa_assistant_id'', JStr ''plots_0''), (''Area'', JNum 0.0185)]),
           (''geometry'', polygon_json [lopsided_ring])]"

definition converted_lopsided :: json where
  "converted_lopsided =
     JObj [(''type'', JStr ''Feature''),
           (''properties'', JObj [(''qa_assistant_id'', JStr ''plots_0''), (''Area'', JNum 4.0)]),
           (''geometry'',
            JObj [(''type'', JStr ''Point''), (''coordinates'', JArr [JNum 0.0004, JNum (1 / 6000)])])]"

definition lopsided_session :: filesystem where
  "lopsided_session =
     \<lparr> dated_output_dir = True,
       candidate_files = (\<lambda>stem. if stem = ''plots''
          then Some (Content (feature_collection ''plots_candidates'' [lopsided_feature]))
          else None),
       valid_files = (\<lambda>stem. None),
       candidates_writable = (\<lambda>stem. True),
       valid_writable = (\<lambda>stem. True),
       detailed_report = Some (Content
          [report_row ''plots_0'' ''Candidate for Conversion'' ''Auto-fixed'']),
       report_writable = True \<rparr>"

section \<open>Rules for evaluating the model on the samples\<close>

lemmas wkb_defs = wkbPoint_def wkbLineString_def wkbPolygon_def wkbMultiPoint_def
  wkbMultiLineString_def wkbMultiPolygon_def

lemmas sample_geometry_defs = ring_def polygon_def point_def bowtie_def bowtie_fixed_def
  hole_def spiked_def spiked_fixed_def empty_polygon_def small_square_def large_square_def

lemmas sample_defs = sample_lib_def sample_centroid_def sample_area_def sample_geometry_defs
  wkb_defs GetGeometryCount_def GetX_def GetY_def in_geographic_bounds_def py_int_def
  MIN_AREA_HA_FOR_POLYGON_def METERS_SQ_PER_HECTARE_def SIMPLIFY_TOLERANCE_def

lemmas py_defs = py_iter_def py_getitem_def py_get_def py_get_default_def py_setitem_def
  py_contains_def py_truthy_def load_json_def

section \<open>Classification\<close>

text \<open>
  C5. A feature whose geometry is missing (\<open>None\<close>) or empty is rejected with the
  reason "Missing or empty geometry" and no action, whatever the values of the autofix and
  simplify flags.
\<close>

theorem missing_or_empty_rejected:
  assumes "geom = None \<or> (\<exists>g. geom = Some g \<and> IsEmpty L g)"
  shows "validate_and_fix_geometry L geom autofix simplify
           = (False, ''Missing or empty geometry'', None)"
  using assms by (auto simp: validate_and_fix_geometry_def)

theorem missing_or_empty_rejected_witness:
  "IsEmpty sample_lib empty_polygon \<and>
   validate_and_fix_geometry sample_lib (Some empty_polygon) True False
     = (False, ''Missing or empty geometry'', None)"
proof -
  have e: "IsEmpty sample_lib empty_polygon"
    by (simp add: sample_defs)
  then have "Some empty_polygon = None \<or> (\<exists>g. Some empty_polygon = Some g \<and> IsEmpty sample_lib g)"
    by simp
  from missing_or_empty_rejected [OF this, of True False] e show ?thesis
    by simp
qed

text \<open>
  What the classifier answers, as one case distinction over the tests it makes in order.
\<close>

lemma validate_and_fix_geometry_accepts_unchanged_iff:
  "validate_and_fix_geometry L geom autofix simplify = (True, reason, None) \<longleftrightarrow>
     reason = ''Valid'' \<and>
     (\<exists>g. geom = Some g \<and> \<not> IsEmpty L g
        \<and> GetGeometryType g AND 255 \<noteq> wkbLineString
        \<and> GetGeometryType g AND 255 \<noteq> wkbMultiLineString
        \<and> IsValid L g
        \<and> \<not> (GetGeometryType g AND 255 = wkbPolygon \<and> GetGeometryCount g > 1)
        \<and> fst (validate_geometry_vertices L (Some g))
        \<and> \<not> (simplify \<and> GetGeometryType g AND 255 = wkbPolygon))"
  by (cases geom; cases "validate_geometry_vertices L geom")
     (auto simp: validate_and_fix_geometry_def Let_def split: option.splits)

text \<open>
  C8. Idempotence of classification: a geometry that the classifier accepts with no
  action under given flags is, when classified again under the same flags, accepted
  again with reason "Valid" and no action. The classifier only reads its argument; and
  since such a geometry passed the validity test, the answer is the same whatever the
  autofix flag of the second run.
\<close>

theorem classification_idempotent:
  assumes "validate_and_fix_geometry L geom autofix simplify = (True, reason, None)"
  shows "validate_and_fix_geometry L geom autofix simplify = (True, ''Valid'', None)
       \<and> validate_and_fix_geometry L geom autofix' simplify = (True, ''Valid'', None)"
  using assms by (simp add: validate_and_fix_geometry_accepts_unchanged_iff)

theorem classification_idempotent_witness:
  "validate_and_fix_geometry sample_lib (Some small_square) True False = (True, ''Valid'', None)
   \<and> validate_and_fix_geometry sample_lib (Some small_square) False False = (True, ''Valid'', None)"
proof -
  have "validate_and_fix_geometry sample_lib (Some small_square) True False
          = (True, ''Valid'', None)"
    by (simp add: validate_and_fix_geometry_def validate_geometry_vertices_def sample_defs)
  from classification_idempotent [OF this, of False] show ?thesis .
qed

text \<open>
  The two actions belong to different inputs: "Auto-fixed" is answered only for a
  geometry that fails the validity test and whose repair differs from it, "Simplified"
  only for a geometry that passes the test.
\<close>

lemma autofixed_only_for_invalid_input:
  assumes "validate_and_fix_geometry L geom autofix simplify = (ok, reason, Some ''Auto-fixed'')"
  shows "\<exists>g fixed_geom. geom = Some g \<and> \<not> IsValid L g \<and> Buffer L g 0 = Some fixed_geom
           \<and> IsValid L fixed_geom \<and> fixed_geom \<noteq> g"
  using assms
  by (cases geom; cases "validate_geometry_vertices L geom")
     (auto simp: validate_and_fix_geometry_def Let_def split: option.splits if_splits)

lemma simplified_only_for_valid_input:
  assumes "validate_and_fix_geometry L geom autofix simplify = (ok, reason, Some ''Simplified'')"
  shows "\<exists>g. geom = Some g \<and> IsValid L g"
  using assms
  by (cases geom; cases "validate_geometry_vertices L geom")
     (auto simp: validate_and_fix_geometry_def Let_def split: option.splits if_splits)

text \<open>
  C9. With autofix enabled, a non-empty geometry that is not a line, fails the validity
  test and is repaired by zero-distance buffering into a non-empty valid geometry is
  accepted at once with action "Auto-fixed": neither the number of rings of the repaired
  geometry, nor its vertices, nor the simplify flag is consulted. Conversely the action
  "Simplified" is only ever answered for a geometry that passed the validity test
  itself, so no geometry is both repaired and simplified.
\<close>

theorem autofix_accepts_immediately:
  assumes "\<not> IsEmpty L g"
    and "GetGeometryType g AND 255 \<noteq> wkbLineString"
    and "GetGeometryType g AND 255 \<noteq> wkbMultiLineString"
    and "\<not> IsValid L g"
    and "Buffer L g 0 = Some fixed_geom"
    and "\<not> IsEmpty L fixed_geom" and "IsValid L fixed_geom"
  shows "validate_and_fix_geometry L (Some g) True simplify
           = (True, ''Valid'', Some ''Auto-fixed'')
         \<and> snd (snd (validate_and_fix_geometry L (Some g) autofix simplify))
             \<noteq> Some ''Simplified''"
  using assms by (auto simp: validate_and_fix_geometry_def Let_def)

text \<open>
  The sample geometry \<open>spiked\<close> is repaired into a polygon with an interior ring and
  vertices at longitude 190; classified on its own, that repaired polygon is rejected for
  its hole, and yet \<open>spiked\<close> is accepted.
\<close>

theorem autofix_accepts_immediately_witness:
  "validate_and_fix_geometry sample_lib (Some spiked) True True
     = (True, ''Valid'', Some ''Auto-fixed'')
   \<and> snd (snd (validate_and_fix_geometry sample_lib (Some spiked) False True))
       \<noteq> Some ''Simplified''
   \<and> Buffer sample_lib spiked 0 = Some spiked_fixed
   \<and> GetGeometryCount spiked_fixed = 2
   \<and> (190, 0) \<in> set (get_all_points spiked_fixed)
   \<and> validate_and_fix_geometry sample_lib (Some spiked_fixed) True True
       = (False, ''Polygon with holes not supported'', None)"
proof -
  have 1: "\<not> IsEmpty sample_lib spiked"
    and 2: "GetGeometryType spiked AND 255 \<noteq> wkbLineString"
    and 3: "GetGeometryType spiked AND 255 \<noteq> wkbMultiLineString"
    and 4: "\<not> IsValid sample_lib spiked"
    and 5: "Buffer sample_lib spiked 0 = Some spiked_fixed"
    and 6: "\<not> IsEmpty sample_lib spiked_fixed"
    and 7: "IsValid sample_lib spiked_fixed"
    by (simp_all add: sample_defs)
  have 8: "GetGeometryCount spiked_fixed = 2"
    and 9: "(190, 0) \<in> set (get_all_points spiked_fixed)"
    by (simp_all add: sample_defs)
  have 10: "validate_and_fix_geometry sample_lib (Some spiked_fixed) True True
       = (False, ''Polygon with holes not supported'', None)"
    using 6 7 8 by (simp add: validate_and_fix_geometry_def spiked_fixed_def polygon_def wkb_defs)
  from autofix_accepts_immediately [OF 1 2 3 4 5 6 7, of True False] 5 8 9 10
  show ?thesis by simp
qed

section \<open>Area\<close>

text \<open>
  C10. For a missing or an empty geometry \<open>get_area_in_hectares\<close> returns the
  value 0.0, not \<open>None\<close>. It returns \<open>None\<close> exactly when the geometry is present
  and not empty and either no centroid is computed, or the centroid lies outside
  [-180,180] x [-90,90], or the coordinate transformation raises.
\<close>

theorem area_none_reserved_for_failures:
  "(geom = None \<or> (\<exists>g. geom = Some g \<and> IsEmpty L g)
      \<longrightarrow> get_area_in_hectares L geom = Some 0.0)
   \<and> (get_area_in_hectares L geom = None \<longleftrightarrow>
        (\<exists>g. geom = Some g \<and> \<not> IsEmpty L g \<and>
           (Centroid L g = None
            \<or> (\<exists>c. Centroid L g = Some c \<and>
                  (\<not> in_geographic_bounds (GetX c) (GetY c)
                   \<or> Transform L g (py_int ((GetX c + 180) / 6) + 1) (GetY c \<ge> 0) = None)))))"
  by (cases geom) (auto simp: get_area_in_hectares_def Let_def split: option.splits)

theorem area_none_reserved_for_failures_witness:
  "get_area_in_hectares sample_lib None = Some 0.0
   \<and> get_area_in_hectares sample_lib (Some empty_polygon) = Some 0.0
   \<and> get_area_in_hectares sample_lib (Some spiked) = None
   \<and> Centroid sample_lib spiked = Some (point 180.02 5)
   \<and> get_area_in_hectares sample_lib (Some small_square) = Some 1.2321"
proof -
  have e: "IsEmpty sample_lib empty_polygon" and s: "\<not> IsEmpty sample_lib spiked"
    by (simp_all add: sample_defs)
  have c: "Centroid sample_lib spiked = Some (point 180.02 5)"
    by (simp add: sample_defs)
  have b: "\<not> in_geographic_bounds (GetX (point 180.02 5)) (GetY (point 180.02 5))"
    by (simp add: sample_defs)
  have a: "get_area_in_hectares sample_lib (Some small_square) = Some 1.2321"
    by (simp add: get_area_in_hectares_def sample_defs)
  from area_none_reserved_for_failures [of None sample_lib]
    area_none_reserved_for_failures [of "Some empty_polygon" sample_lib]
    area_none_reserved_for_failures [of "Some spiked" sample_lib] e s c b a
  show ?thesis by simp
qed

section \<open>Partitioning\<close>

text \<open>
  The effect of one iteration that does not raise: one detailed row for the feature,
  one output feature carrying the geometry of the input feature, \<open>total\<close> incremented,
  \<open>autofixed\<close> incremented exactly for the action "Auto-fixed", and one of the three
  terminal states, each with its own counter and its own layer.
\<close>

lemma process_feature_step:
  assumes run: "process_feature L stem simplify autofix identify st f = Inr st'"
  shows "\<exists>r out.
     detailed_rows st' = detailed_rows st @ [r]
     \<and> map_of (field_values f) ID_FIELD_NAME = Some (qa_assistant_id r)
     \<and> out_geometry out = geometry f
     \<and> total (stats st') = total (stats st) + 1
     \<and> autofixed (stats st') = autofixed (stats st)
         + (if snd (snd (validate_and_fix_geometry L (geometry f) autofix simplify)) = Some ''Auto-fixed''
            then 1 else 0)
     \<and> (if \<not> fst (validate_and_fix_geometry L (geometry f) autofix simplify)
            \<or> get_area_in_hectares L (geometry f) = None
         then final_status r = ''Requires Review''
              \<and> review (stats st') = review (stats st) + 1
              \<and> valid_large (stats st') = valid_large (stats st)
              \<and> candidates (stats st') = candidates (stats st)
              \<and> review_layer st' = review_layer st @ [out]
              \<and> valid_layer st' = valid_layer st
              \<and> candidates_layer st' = candidates_layer st
         else if identify
                 \<and> GetGeometryType (the (geometry f)) AND 255 = wkbPolygon
                 \<and> the (get_area_in_hectares L (geometry f)) < MIN_AREA_HA_FOR_POLYGON
         then final_status r = ''Candidate for Conversion''
              \<and> review (stats st') = review (stats st)
              \<and> valid_large (stats st') = valid_large (stats st)
              \<and> candidates (stats st') = candidates (stats st) + 1
              \<and> review_layer st' = review_layer st
              \<and> valid_layer st' = valid_layer st
              \<and> candidates_layer st' = candidates_layer st @ [out]
         else final_status r = ''Valid''
              \<and> review (stats st') = review (stats st)
              \<and> valid_large (stats st') = valid_large (stats st) + 1
              \<and> candidates (stats st') = candidates (stats st)
              \<and> review_layer st' = review_layer st
              \<and> valid_layer st' = valid_layer st @ [out]
              \<and> candidates_layer st' = candidates_layer st)"
proof -
  obtain qa_id where q: "map_of (field_values f) ID_FIELD_NAME = Some qa_id"
    using run by (cases "map_of (field_values f) ID_FIELD_NAME") (simp_all add: process_feature_def)
  obtain ok reason action where
    v: "validate_and_fix_geometry L (geometry f) autofix simplify = (ok, reason, action)"
    by (cases "validate_and_fix_geometry L (geometry f) autofix simplify")
  show ?thesis
  proof (cases ok)
    case False
    with run q v show ?thesis
      by (auto simp: process_feature_def Let_def SetField_def SetGeometry_def SetFrom_def)
  next
    case True
    note ok = this
    show ?thesis
    proof (cases "get_area_in_hectares L (geometry f)")
      case None
      with run q v ok show ?thesis
        by (auto simp: process_feature_def Let_def SetField_def SetGeometry_def SetFrom_def)
    next
      case (Some area_ha)
      note a = this
      show ?thesis
      proof (cases "geometry f")
        case None
        with run q v ok a show ?thesis by (simp add: process_feature_def)
      next
        case (Some g)
        show ?thesis
        proof (cases "identify \<and> GetGeometryType g AND 255 = wkbPolygon
                        \<and> area_ha < MIN_AREA_HA_FOR_POLYGON")
          case True
          with run q v ok a Some show ?thesis
            by (auto simp: process_feature_def Let_def SetGeometry_def SetFrom_def)
        next
          case False
          with run q v ok a Some show ?thesis
            by (auto simp: process_feature_def Let_def SetGeometry_def SetFrom_def)
        qed
      qed
    qed
  qed
qed

text \<open>The loop: the facts about one iteration, accumulated over the features.\<close>

lemma partition_loop_rows:
  assumes "partition_loop L stem simplify autofix identify st fs = Inr st'"
  shows "\<exists>rs. detailed_rows st' = detailed_rows st @ rs \<and>
           list_all2 (\<lambda>f r. map_of (field_values f) ID_FIELD_NAME = Some (qa_assistant_id r)
              \<and> final_status r =
                  (if \<not> fst (validate_and_fix_geometry L (geometry f) autofix simplify)
                      \<or> get_area_in_hectares L (geometry f) = None
                   then ''Requires Review''
                   else if identify
                           \<and> GetGeometryType (the (geometry f)) AND 255 = wkbPolygon
                           \<and> the (get_area_in_hectares L (geometry f)) < MIN_AREA_HA_FOR_POLYGON
                   then ''Candidate for Conversion'' else ''Valid'')) fs rs"
  using assms
proof (induction fs arbitrary: st)
  case Nil
  then show ?case by simp
next
  case (Cons f fs)
  then obtain st1 where s1: "process_feature L stem simplify autofix identify st f = Inr st1"
    and s2: "partition_loop L stem simplify autofix identify st1 fs = Inr st'"
    by (auto split: sum.splits)
  from process_feature_step [OF s1] Cons.IH [OF s2] show ?case
    by (auto split: if_splits)
qed

lemma partition_loop_stats:
  assumes "partition_loop L stem simplify autofix identify st fs = Inr st'"
  shows "\<exists>rs. detailed_rows st' = detailed_rows st @ rs
       \<and> total (stats st') = total (stats st) + int (length fs)
       \<and> valid_large (stats st') = valid_large (stats st)
           + int (length (filter (\<lambda>r. final_status r = ''Valid'') rs))
       \<and> review (stats st') = review (stats st)
           + int (length (filter (\<lambda>r. final_status r = ''Requires Review'') rs))
       \<and> candidates (stats st') = candidates (stats st)
           + int (length (filter (\<lambda>r. final_status r = ''Candidate for Conversion'') rs))
       \<and> autofixed (stats st') = autofixed (stats st)
           + int (length (filter (\<lambda>f. snd (snd (validate_and_fix_geometry L (geometry f) autofix simplify))
                                      = Some ''Auto-fixed'') fs))"
  using assms
proof (induction fs arbitrary: st)
  case Nil
  then show ?case by simp
next
  case (Cons f fs)
  then obtain st1 where s1: "process_feature L stem simplify autofix identify st f = Inr st1"
    and s2: "partition_loop L stem simplify autofix identify st1 fs = Inr st'"
    by (auto split: sum.splits)
  from process_feature_step [OF s1] obtain r where
    r: "detailed_rows st1 = detailed_rows st @ [r]"
    and t: "total (stats st1) = total (stats st) + 1"
    and a: "autofixed (stats st1) = autofixed (stats st)
         + (if snd (snd (validate_and_fix_geometry L (geometry f) autofix simplify)) = Some ''Auto-fixed''
            then 1 else 0)"
    and c: "(final_status r = ''Requires Review''
              \<and> review (stats st1) = review (stats st) + 1
              \<and> valid_large (stats st1) = valid_large (stats st)
              \<and> candidates (stats st1) = candidates (stats st))
          \<or> (final_status r = ''Candidate for Conversion''
              \<and> review (stats st1) = review (stats st)
              \<and> valid_large (stats st1) = valid_large (stats st)
              \<and> candidates (stats st1) = candidates (stats st) + 1)
          \<or> (final_status r = ''Valid''
              \<and> review (stats st1) = review (stats st)
              \<and> valid_large (stats st1) = valid_large (stats st) + 1
              \<and> candidates (stats st1) = candidates (stats st))"
    by (auto split: if_splits)
  from Cons.IH [OF s2] obtain rs where
    rs: "detailed_rows st' = detailed_rows st1 @ rs"
    and t': "total (stats st') = total (stats st1) + int (length fs)"
    and v': "valid_large (stats st') = valid_large (stats st1)
           + int (length (filter (\<lambda>r. final_status r = ''Valid'') rs))"
    and r': "review (stats st') = review (stats st1)
           + int (length (filter (\<lambda>r. final_status r = ''Requires Review'') rs))"
    and c': "candidates (stats st') = candidates (stats st1)
           + int (length (filter (\<lambda>r. final_status r = ''Candidate for Conversion'') rs))"
    and a': "autofixed (stats st') = autofixed (stats st1)
           + int (length (filter (\<lambda>f. snd (snd (validate_and_fix_geometry L (geometry f) autofix simplify))
                                      = Some ''Auto-fixed'') fs))"
    by blast
  have "detailed_rows st' = detailed_rows st @ (r # rs)"
    using r rs by simp
  moreover have "total (stats st') = total (stats st) + int (length (f # fs))"
    using t t' by simp
  moreover have "valid_large (stats st') = valid_large (stats st)
           + int (length (filter (\<lambda>r. final_status r = ''Valid'') (r # rs)))"
    using c v' by auto
  moreover have "review (stats st') = review (stats st)
           + int (length (filter (\<lambda>r. final_status r = ''Requires Review'') (r # rs)))"
    using c r' by auto
  moreover have "candidates (stats st') = candidates (stats st)
           + int (length (filter (\<lambda>r. final_status r = ''Candidate for Conversion'') (r # rs)))"
    using c c' by auto
  moreover have "autofixed (stats st') = autofixed (stats st)
           + int (length (filter (\<lambda>f. snd (snd (validate_and_fix_geometry L (geometry f) autofix simplify))
                                      = Some ''Auto-fixed'') (f # fs)))"
    using a a' by simp
  ultimately show ?case by blast
qed

lemma partition_loop_layers:
  assumes "partition_loop L stem simplify autofix identify st fs = Inr st'"
  shows "\<exists>rv cd vl. review_layer st' = review_layer st @ rv
           \<and> candidates_layer st' = candidates_layer st @ cd
           \<and> valid_layer st' = valid_layer st @ vl
           \<and> out_geometry ` set (rv @ cd @ vl) \<subseteq> geometry ` set fs"
  using assms
proof (induction fs arbitrary: st)
  case Nil
  then show ?case by simp
next
  case (Cons f fs)
  then obtain st1 where s1: "process_feature L stem simplify autofix identify st f = Inr st1"
    and s2: "partition_loop L stem simplify autofix identify st1 fs = Inr st'"
    by (auto split: sum.splits)
  from process_feature_step [OF s1] obtain out where
    "out_geometry out = geometry f"
    "(review_layer st1 = review_layer st @ [out] \<and> candidates_layer st1 = candidates_layer st
        \<and> valid_layer st1 = valid_layer st)
     \<or> (review_layer st1 = review_layer st \<and> candidates_layer st1 = candidates_layer st @ [out]
        \<and> valid_layer st1 = valid_layer st)
     \<or> (review_layer st1 = review_layer st \<and> candidates_layer st1 = candidates_layer st
        \<and> valid_layer st1 = valid_layer st @ [out])"
    by (auto split: if_splits)
  moreover from Cons.IH [OF s2] obtain rv cd vl where
    "review_layer st' = review_layer st1 @ rv" "candidates_layer st' = candidates_layer st1 @ cd"
    "valid_layer st' = valid_layer st1 @ vl"
    "out_geometry ` set (rv @ cd @ vl) \<subseteq> geometry ` set fs"
    by blast
  ultimately consider
      "review_layer st' = review_layer st @ (out # rv) \<and> candidates_layer st' = candidates_layer st @ cd
         \<and> valid_layer st' = valid_layer st @ vl
         \<and> out_geometry ` set ((out # rv) @ cd @ vl) \<subseteq> geometry ` set (f # fs)"
    | "review_layer st' = review_layer st @ rv \<and> candidates_layer st' = candidates_layer st @ (out # cd)
         \<and> valid_layer st' = valid_layer st @ vl
         \<and> out_geometry ` set (rv @ (out # cd) @ vl) \<subseteq> geometry ` set (f # fs)"
    | "review_layer st' = review_layer st @ rv \<and> candidates_layer st' = candidates_layer st @ cd
         \<and> valid_layer st' = valid_layer st @ (out # vl)
         \<and> out_geometry ` set (rv @ cd @ (out # vl)) \<subseteq> geometry ` set (f # fs)"
    by (elim disjE) (simp_all add: image_Un subset_insertI2)
  then show ?case by cases blast+
qed

lemma partition_loop_total:
  assumes "\<forall>f \<in> set fs. map_of (field_values f) ID_FIELD_NAME \<noteq> None"
  shows "\<exists>st'. partition_loop L stem simplify autofix identify st fs = Inr st'"
  using assms
proof (induction fs arbitrary: st)
  case Nil
  then show ?case by simp
next
  case (Cons f fs)
  then obtain qa_id where q: "map_of (field_values f) ID_FIELD_NAME = Some qa_id" by auto
  obtain ok reason action where
    v: "validate_and_fix_geometry L (geometry f) autofix simplify = (ok, reason, action)"
    by (cases "validate_and_fix_geometry L (geometry f) autofix simplify")
  have g: "ok \<Longrightarrow> geometry f \<noteq> None"
    using v by (cases "geometry f") (auto simp: validate_and_fix_geometry_def)
  have "\<exists>st1. process_feature L stem simplify autofix identify st f = Inr st1"
    using q v g
    by (cases ok; cases "get_area_in_hectares L (geometry f)"; cases "geometry f")
       (simp_all add: process_feature_def Let_def)
  with Cons show ?case by auto
qed


text \<open>The run of the partitioner on the sample dataset, evaluated.\<close>

lemma sample_validate:
  "validate_and_fix_geometry sample_lib (Some bowtie) True False = (True, ''Valid'', Some ''Auto-fixed'')"
  "validate_and_fix_geometry sample_lib (Some spiked) True False = (True, ''Valid'', Some ''Auto-fixed'')"
  "validate_and_fix_geometry sample_lib (Some small_square) True False = (True, ''Valid'', None)"
  "validate_and_fix_geometry sample_lib (Some large_square) True False = (True, ''Valid'', None)"
  "validate_and_fix_geometry sample_lib None True False = (False, ''Missing or empty geometry'', None)"
  by (simp_all add: validate_and_fix_geometry_def validate_geometry_vertices_def sample_defs)

lemma sample_area:
  "get_area_in_hectares sample_lib (Some bowtie) = Some 0"
  "get_area_in_hectares sample_lib (Some spiked) = None"
  "get_area_in_hectares sample_lib (Some small_square) = Some 1.2321"
  "get_area_in_hectares sample_lib (Some large_square) = Some 123.21"
  by (simp_all add: get_area_in_hectares_def sample_defs)

lemma sample_attribute_status:
  "check_optional_properties L \<lparr> field_values = [(''qa_assistant_id'', v)], geometry = geom \<rparr>
     = ''Not included; Not included; Not included; Not included''"
  by (simp add: check_optional_properties_def check_field_def OPTIONAL_FIELDS_def join_def)

lemma sample_types:
  "GetGeometryType bowtie AND 255 = wkbPolygon"
  "GetGeometryType small_square AND 255 = wkbPolygon"
  "GetGeometryType large_square AND 255 = wkbPolygon"
  by (simp_all add: sample_defs)

lemma sample_run:
  "\<exists>st. partition_and_process_dataset sample_lib sample_dataset ''plots'' False True True = Inr st
     \<and> stats st = \<lparr> total = 5, valid_large = 1, review = 2, autofixed = 2, candidates = 2 \<rparr>
     \<and> map final_status (detailed_rows st)
         = [''Candidate for Conversion'', ''Requires Review'', ''Candidate for Conversion'',
            ''Valid'', ''Requires Review'']
     \<and> map action_taken (detailed_rows st)
         = [''Auto-fixed'', ''Auto-fixed'', ''Identified'', ''N/A'', ''Segregated'']
     \<and> map out_geometry (candidates_layer st) = [Some bowtie, Some small_square]
     \<and> map out_geometry (valid_layer st) = [Some large_square]
     \<and> map out_geometry (review_layer st) = [Some spiked, None]"
  by (simp add: partition_and_process_dataset_def sample_dataset_def process_feature_def
      initial_pstate_def sample_validate sample_area sample_attribute_status sample_types
      ID_FIELD_NAME_def MIN_AREA_HA_FOR_POLYGON_def py_or_def SetFrom_def SetGeometry_def
      SetField_def Let_def sample_feature_def)



text \<open>
  C6. When \<open>partition_and_process_dataset\<close> returns, every input feature has produced
  exactly one detailed row (the rows carry the identifiers of the features, in order),
  \<open>total\<close> is the number of features and the sum of \<open>valid_large\<close>, \<open>review\<close> and
  \<open>candidates\<close>, each of these three counts the rows of its own final status, and
  \<open>autofixed\<close> counts the features whose classification action was "Auto-fixed",
  whatever their final status.
\<close>

theorem partition_counts:
  assumes run: "partition_and_process_dataset L ds stem simplify autofix identify = Inr st"
    and layer: "GetLayer ds = Some in_layer"
  shows "total (stats st) = int (length (features in_layer))
       \<and> total (stats st) = valid_large (stats st) + review (stats st) + candidates (stats st)
       \<and> length (detailed_rows st) = length (features in_layer)
       \<and> map (\<lambda>r. Some (qa_assistant_id r)) (detailed_rows st)
           = map (\<lambda>f. map_of (field_values f) ID_FIELD_NAME) (features in_layer)
       \<and> valid_large (stats st)
           = int (length (filter (\<lambda>r. final_status r = ''Valid'') (detailed_rows st)))
       \<and> review (stats st)
           = int (length (filter (\<lambda>r. final_status r = ''Requires Review'') (detailed_rows st)))
       \<and> candidates (stats st)
           = int (length (filter (\<lambda>r. final_status r = ''Candidate for Conversion'')
                            (detailed_rows st)))
       \<and> autofixed (stats st)
           = int (length (filter
               (\<lambda>f. snd (snd (validate_and_fix_geometry L (geometry f) autofix simplify))
                      = Some ''Auto-fixed'') (features in_layer)))"
proof -
  let ?fs = "features in_layer"
  from run layer have loop:
    "partition_loop L stem simplify autofix identify initial_pstate ?fs = Inr st"
    by (simp add: partition_and_process_dataset_def)
  from partition_loop_rows [OF loop] obtain rs where
    rs: "detailed_rows st = rs"
    and all2: "list_all2 (\<lambda>f r. map_of (field_values f) ID_FIELD_NAME = Some (qa_assistant_id r)
              \<and> final_status r =
                  (if \<not> fst (validate_and_fix_geometry L (geometry f) autofix simplify)
                      \<or> get_area_in_hectares L (geometry f) = None
                   then ''Requires Review''
                   else if identify
                           \<and> GetGeometryType (the (geometry f)) AND 255 = wkbPolygon
                           \<and> the (get_area_in_hectares L (geometry f)) < MIN_AREA_HA_FOR_POLYGON
                   then ''Candidate for Conversion'' else ''Valid'')) ?fs rs"
    by (auto simp: initial_pstate_def)
  have len: "length rs = length ?fs"
    using all2 by (simp add: list_all2_lengthD)
  have ids: "map (\<lambda>r. Some (qa_assistant_id r)) rs = map (\<lambda>f. map_of (field_values f) ID_FIELD_NAME) ?fs"
    using all2 by (induction rule: list_all2_induct) simp_all
  have status: "\<forall>r \<in> set rs. final_status r = ''Valid'' \<or> final_status r = ''Requires Review''
                  \<or> final_status r = ''Candidate for Conversion''"
    using all2 by (induction rule: list_all2_induct) (auto split: if_splits)
  have split3: "length rs = length (filter (\<lambda>r. final_status r = ''Valid'') rs)
                  + length (filter (\<lambda>r. final_status r = ''Requires Review'') rs)
                  + length (filter (\<lambda>r. final_status r = ''Candidate for Conversion'') rs)"
    using status by (induction rs) auto
  from partition_loop_stats [OF loop] rs have
    t: "total (stats st) = int (length ?fs)"
    and v: "valid_large (stats st) = int (length (filter (\<lambda>r. final_status r = ''Valid'') rs))"
    and r: "review (stats st) = int (length (filter (\<lambda>r. final_status r = ''Requires Review'') rs))"
    and c: "candidates (stats st)
              = int (length (filter (\<lambda>r. final_status r = ''Candidate for Conversion'') rs))"
    and a: "autofixed (stats st)
           = int (length (filter
               (\<lambda>f. snd (snd (validate_and_fix_geometry L (geometry f) autofix simplify))
                      = Some ''Auto-fixed'') ?fs))"
    by (auto simp: initial_pstate_def)
  have sum: "total (stats st) = valid_large (stats st) + review (stats st) + candidates (stats st)"
    using t v r c len split3 by simp
  from t sum len ids v r c a rs show ?thesis by simp
qed

text \<open>
  In the sample dataset two features are auto-fixed: one ends as a candidate, the other
  in review because its area cannot be computed.
\<close>

theorem partition_counts_witness:
  "\<exists>st. partition_and_process_dataset sample_lib sample_dataset ''plots'' False True True = Inr st
     \<and> total (stats st) = 5 \<and> length (detailed_rows st) = 5
     \<and> valid_large (stats st) = 1 \<and> review (stats st) = 2 \<and> candidates (stats st) = 2
     \<and> autofixed (stats st) = 2
     \<and> map final_status (detailed_rows st)
         = [''Candidate for Conversion'', ''Requires Review'', ''Candidate for Conversion'',
            ''Valid'', ''Requires Review'']
     \<and> map action_taken (detailed_rows st)
         = [''Auto-fixed'', ''Auto-fixed'', ''Identified'', ''N/A'', ''Segregated'']"
proof -
  from sample_run obtain st where
    run: "partition_and_process_dataset sample_lib sample_dataset ''plots'' False True True = Inr st"
    and rest: "map final_status (detailed_rows st)
         = [''Candidate for Conversion'', ''Requires Review'', ''Candidate for Conversion'',
            ''Valid'', ''Requires Review'']"
      "map action_taken (detailed_rows st)
         = [''Auto-fixed'', ''Auto-fixed'', ''Identified'', ''N/A'', ''Segregated'']"
      "stats st = \<lparr> total = 5, valid_large = 1, review = 2, autofixed = 2, candidates = 2 \<rparr>"
    by (elim exE conjE)
  have layer: "GetLayer sample_dataset = Some (the (GetLayer sample_dataset))"
    by (simp add: sample_dataset_def)
  from partition_counts [OF run layer] rest run show ?thesis
    by (simp add: sample_dataset_def)
qed

text \<open>
  C2. For a feature that is accepted and whose area is computed: if candidate
  identification is on, the masked type of its geometry is polygon and the area is below
  4.0 ha, the final status of its row is "Candidate for Conversion"; if the area is at
  least 4.0 ha, or candidate identification is off (or the geometry is not a polygon),
  the final status is "Valid".
\<close>

theorem candidate_threshold:
  assumes run: "partition_and_process_dataset L ds stem simplify autofix identify = Inr st"
    and layer: "GetLayer ds = Some in_layer"
    and i: "i < length (features in_layer)"
    and g: "geometry (features in_layer ! i) = Some g"
    and accepted: "validate_and_fix_geometry L (Some g) autofix simplify = (True, reason, action)"
    and area: "get_area_in_hectares L (Some g) = Some area_ha"
  shows "(identify \<and> GetGeometryType g AND 255 = wkbPolygon \<and> area_ha < 4.0
            \<longrightarrow> final_status (detailed_rows st ! i) = ''Candidate for Conversion'')
       \<and> (area_ha \<ge> 4.0 \<or> \<not> identify \<or> GetGeometryType g AND 255 \<noteq> wkbPolygon
            \<longrightarrow> final_status (detailed_rows st ! i) = ''Valid'')"
proof -
  let ?fs = "features in_layer"
  from run layer have loop:
    "partition_loop L stem simplify autofix identify initial_pstate ?fs = Inr st"
    by (simp add: partition_and_process_dataset_def)
  from partition_loop_rows [OF loop] have
    "list_all2 (\<lambda>f r. map_of (field_values f) ID_FIELD_NAME = Some (qa_assistant_id r)
              \<and> final_status r =
                  (if \<not> fst (validate_and_fix_geometry L (geometry f) autofix simplify)
                      \<or> get_area_in_hectares L (geometry f) = None
                   then ''Requires Review''
                   else if identify
                           \<and> GetGeometryType (the (geometry f)) AND 255 = wkbPolygon
                           \<and> the (get_area_in_hectares L (geometry f)) < MIN_AREA_HA_FOR_POLYGON
                   then ''Candidate for Conversion'' else ''Valid'')) ?fs (detailed_rows st)"
    by (auto simp: initial_pstate_def)
  from list_all2_nthD [OF this i] g accepted area show ?thesis
    by (auto simp: MIN_AREA_HA_FOR_POLYGON_def)
qed

theorem candidate_threshold_witness:
  "\<exists>st. partition_and_process_dataset sample_lib sample_dataset ''plots'' False True True = Inr st
     \<and> get_area_in_hectares sample_lib (Some small_square) = Some 1.2321
     \<and> final_status (detailed_rows st ! 2) = ''Candidate for Conversion''
     \<and> get_area_in_hectares sample_lib (Some large_square) = Some 123.21
     \<and> final_status (detailed_rows st ! 3) = ''Valid''"
proof -
  from sample_run obtain st where
    run: "partition_and_process_dataset sample_lib sample_dataset ''plots'' False True True = Inr st"
    by (elim exE conjE)
  have layer: "GetLayer sample_dataset = Some (the (GetLayer sample_dataset))"
    by (simp add: sample_dataset_def)
  have i2: "2 < length (features (the (GetLayer sample_dataset)))"
    and g2: "geometry (features (the (GetLayer sample_dataset)) ! 2) = Some small_square"
    and i3: "3 < length (features (the (GetLayer sample_dataset)))"
    and g3: "geometry (features (the (GetLayer sample_dataset)) ! 3) = Some large_square"
    by (simp_all add: sample_dataset_def sample_feature_def)
  from candidate_threshold [OF run layer i2 g2 sample_validate(3) sample_area(3)]
       candidate_threshold [OF run layer i3 g3 sample_validate(4) sample_area(4)]
       run sample_area sample_types
  show ?thesis by auto
qed

text \<open>
  Every geometry in an output layer is the geometry of an input feature: the partitioner
  passes the geometry it read from the feature to the area computation and to
  \<open>SetGeometry\<close>, whatever action the classifier reports.
\<close>

lemma partition_writes_input_geometries:
  assumes run: "partition_and_process_dataset L ds stem simplify autofix identify = Inr st"
    and layer: "GetLayer ds = Some in_layer"
  shows "out_geometry ` set (review_layer st @ candidates_layer st @ valid_layer st)
           \<subseteq> geometry ` set (features in_layer)"
proof -
  from run layer have
    "partition_loop L stem simplify autofix identify initial_pstate (features in_layer) = Inr st"
    by (simp add: partition_and_process_dataset_def)
  from partition_loop_layers [OF this] show ?thesis
    by (auto simp: initial_pstate_def)
qed

text \<open>
  In particular the feature written for an auto-fixed input carries a geometry that fails
  the validity test, and not its repair.
\<close>

lemma autofixed_feature_written_unrepaired:
  assumes step: "process_feature L stem simplify autofix identify st f = Inr st'"
    and fixed: "validate_and_fix_geometry L (geometry f) autofix simplify
                  = (ok, reason, Some ''Auto-fixed'')"
  shows "\<exists>out g fixed_geom.
           set (review_layer st' @ candidates_layer st' @ valid_layer st')
             = insert out (set (review_layer st @ candidates_layer st @ valid_layer st))
         \<and> out_geometry out = Some g \<and> \<not> IsValid L g
         \<and> Buffer L g 0 = Some fixed_geom \<and> fixed_geom \<noteq> g"
proof -
  from autofixed_only_for_invalid_input [OF fixed] obtain g fixed_geom where
    g: "geometry f = Some g" "\<not> IsValid L g" "Buffer L g 0 = Some fixed_geom" "fixed_geom \<noteq> g"
    by blast
  from process_feature_step [OF step] obtain out where
    "out_geometry out = geometry f"
    "(review_layer st' = review_layer st @ [out] \<and> candidates_layer st' = candidates_layer st
        \<and> valid_layer st' = valid_layer st)
     \<or> (review_layer st' = review_layer st \<and> candidates_layer st' = candidates_layer st @ [out]
        \<and> valid_layer st' = valid_layer st)
     \<or> (review_layer st' = review_layer st \<and> candidates_layer st' = candidates_layer st
        \<and> valid_layer st' = valid_layer st @ [out])"
    by (auto split: if_splits)
  with g show ?thesis by auto
qed

text \<open>
  C1 states that for a feature classified with action "Auto-fixed" the repaired geometry
  is the one measured and written to the output layer. The code does otherwise: on a
  dataset whose only feature is the self-intersecting \<open>bowtie\<close>, with autofix on, the
  classifier answers "Auto-fixed", the row and the statistics record the repair, and the
  candidates layer receives \<open>bowtie\<close> itself, not its repair \<open>bowtie_fixed\<close>.
\<close>

theorem autofixed_geometry_not_written:
  "\<exists>st. partition_and_process_dataset sample_lib
           \<lparr> GetLayer = Some \<lparr> GetSpatialRef = Some ''WGS 84'',
                               features = [sample_feature ''plots_0'' (Some bowtie)] \<rparr> \<rparr>
           ''plots'' False True True = Inr st
     \<and> validate_and_fix_geometry sample_lib (Some bowtie) True False
           = (True, ''Valid'', Some ''Auto-fixed'')
     \<and> Buffer sample_lib bowtie 0 = Some bowtie_fixed
     \<and> bowtie_fixed \<noteq> bowtie
     \<and> map action_taken (detailed_rows st) = [''Auto-fixed'']
     \<and> autofixed (stats st) = 1
     \<and> map out_geometry (candidates_layer st) = [Some bowtie]
     \<and> valid_layer st = [] \<and> review_layer st = []"
  by (simp add: partition_and_process_dataset_def process_feature_def
      initial_pstate_def sample_validate sample_area sample_attribute_status sample_types
      ID_FIELD_NAME_def MIN_AREA_HA_FOR_POLYGON_def py_or_def SetFrom_def SetGeometry_def
      SetField_def Let_def sample_feature_def)
     (simp add: sample_defs)

section \<open>The CRS gate\<close>

lemma validate_global_crs_iff:
  "validate_global_crs L ds \<longleftrightarrow>
     (\<exists>in_layer srs. GetLayer ds = Some in_layer \<and> GetSpatialRef in_layer = Some srs
        \<and> IsSame L srs (ImportFromEPSG L 4326) = Inr True)"
  by (auto simp: validate_global_crs_def Let_def split: option.splits sum.splits)

text \<open>
  C4. A dataset whose declared spatial reference system is not the same as WGS84,
  as the library's comparison of reference systems decides (no EPSG code is compared), is
  recorded in the summary report with status "WRONG_EPSG" and moved aside, and the
  partitioner is not run on it: no detailed row and no output layer is produced. The
  record is made when the files can be moved and the summary report can be written.
  When the reference system is the same as WGS84, the partitioner runs on the dataset.
\<close>

theorem crs_gate:
  assumes opened: "open_dataset dataset_path = Some ds"
    and layer: "GetLayer ds = Some in_layer"
    and srs: "GetSpatialRef in_layer = Some srs"
    and same: "IsSame L srs (ImportFromEPSG L 4326) = Inr same"
  shows "(\<not> same \<longrightarrow>
            run_validate_dataset L self writable st dataset_path =
              (if movable dataset_path then
                 Inr (st\<lparr> invalid_global := invalid_global st @ [file_name dataset_path],
                          summary_report :=
                            (if writable then
                               summary_report st @
                                 [\<lparr> dataset_name = file_name dataset_path,
                                    initial_status = ''WRONG_EPSG'',
                                    processing_status = ''SKIPPED'',
                                    row_stats = None,
                                    row_attribute_status = [],
                                    row_reason = ''EPSG is not 4326'' \<rparr>]
                             else summary_report st) \<rparr>)
               else Inl OSError))
       \<and> (same \<longrightarrow>
            (case partition_and_process_dataset L ds (file_stem dataset_path)
                    (simplify_geometries self) (autofix_geometries self)
                    (identify_candidates self) of
               Inl e \<Rightarrow> run_validate_dataset L self writable st dataset_path = Inl e
             | Inr result \<Rightarrow>
                 (\<exists>st'. run_validate_dataset L self writable st dataset_path = Inr st'
                    \<and> partitioned st' = partitioned st @ [(file_stem dataset_path, result)]
                    \<and> all_detailed_rows st' = all_detailed_rows st @ detailed_rows result
                    \<and> invalid_global st' = invalid_global st)))"
proof -
  have gate: "validate_global_crs L ds = same"
    using layer srs same by (simp add: validate_global_crs_def)
  show ?thesis
  proof (cases same)
    case False
    with gate opened show ?thesis
      by (simp add: run_validate_dataset_def move_and_log_dataset_def log_to_summary_report_def
          EXPECTED_EPSG_def)
  next
    case True
    with gate opened show ?thesis
      by (simp add: run_validate_dataset_def Let_def split: sum.splits)
  qed
qed

theorem crs_gate_witness:
  "run_validate_dataset sample_lib
      \<lparr> simplify_geometries = False, autofix_geometries = True, identify_candidates = True \<rparr>
      True empty_run_state
      \<lparr> file_name = ''roads.geojson'', file_stem = ''roads'',
         open_dataset = Some mercator_dataset, movable = True \<rparr>
    = Inr \<lparr> summary_report =
              [\<lparr> dataset_name = ''roads.geojson'', initial_status = ''WRONG_EPSG'',
                 processing_status = ''SKIPPED'', row_stats = None,
                 row_attribute_status = [], row_reason = ''EPSG is not 4326'' \<rparr>],
            all_detailed_rows = [], partitioned = [], invalid_global = [''roads.geojson''] \<rparr>
   \<and> (\<exists>st'. run_validate_dataset sample_lib
      \<lparr> simplify_geometries = False, autofix_geometries = True, identify_candidates = True \<rparr>
      True empty_run_state
      \<lparr> file_name = ''plots.geojson'', file_stem = ''plots'',
         open_dataset = Some sample_dataset, movable = True \<rparr> = Inr st'
      \<and> map fst (partitioned st') = [''plots'']
      \<and> length (all_detailed_rows st') = 5
      \<and> invalid_global st' = [])"
proof -
  let ?self = "\<lparr> simplify_geometries = False, autofix_geometries = True, identify_candidates = True \<rparr>"
  let ?roads = "\<lparr> file_name = ''roads.geojson'', file_stem = ''roads'',
         open_dataset = Some mercator_dataset, movable = True \<rparr>"
  let ?plots = "\<lparr> file_name = ''plots.geojson'', file_stem = ''plots'',
         open_dataset = Some sample_dataset, movable = True \<rparr>"
  have r1: "open_dataset ?roads = Some mercator_dataset" by simp
  have r2: "GetLayer mercator_dataset = Some (the (GetLayer mercator_dataset))"
    and r3: "GetSpatialRef (the (GetLayer mercator_dataset)) = Some ''WGS 84 / Pseudo-Mercator''"
    by (simp_all add: mercator_dataset_def)
  have r4: "IsSame sample_lib ''WGS 84 / Pseudo-Mercator'' (ImportFromEPSG sample_lib 4326) = Inr False"
    by (simp add: sample_lib_def)
  have p1: "open_dataset ?plots = Some sample_dataset" by simp
  have p2: "GetLayer sample_dataset = Some (the (GetLayer sample_dataset))"
    and p3: "GetSpatialRef (the (GetLayer sample_dataset)) = Some ''WGS 84''"
    by (simp_all add: sample_dataset_def)
  have p4: "IsSame sample_lib ''WGS 84'' (ImportFromEPSG sample_lib 4326) = Inr True"
    by (simp add: sample_lib_def)
  from sample_run obtain res where
    run: "partition_and_process_dataset sample_lib sample_dataset ''plots'' False True True = Inr res"
    and rows: "map final_status (detailed_rows res)
         = [''Candidate for Conversion'', ''Requires Review'', ''Candidate for Conversion'',
            ''Valid'', ''Requires Review'']"
    by (elim exE conjE)
  have len: "length (detailed_rows res) = 5"
    using arg_cong [OF rows, of length] by simp
  from crs_gate [OF r1 r2 r3 r4, of ?self True empty_run_state]
  have a: "run_validate_dataset sample_lib ?self True empty_run_state ?roads
    = Inr \<lparr> summary_report =
              [\<lparr> dataset_name = ''roads.geojson'', initial_status = ''WRONG_EPSG'',
                 processing_status = ''SKIPPED'', row_stats = None,
                 row_attribute_status = [], row_reason = ''EPSG is not 4326'' \<rparr>],
            all_detailed_rows = [], partitioned = [], invalid_global = [''roads.geojson''] \<rparr>"
    by (simp add: empty_run_state_def)
  from crs_gate [OF p1 p2 p3 p4, of ?self True empty_run_state] run len
  have b: "\<exists>st'. run_validate_dataset sample_lib ?self True empty_run_state ?plots = Inr st'
      \<and> map fst (partitioned st') = [''plots'']
      \<and> length (all_detailed_rows st') = 5
      \<and> invalid_global st' = []"
    by (auto simp: empty_run_state_def)
  from a b show ?thesis by blast
qed

section \<open>Conversion of candidates to points\<close>

lemma convert_candidate_result:
  assumes p: "py_getitem feature ''properties'' = Inr properties"
    and q: "py_get properties ID_FIELD_NAME = Inr (JStr qa_id)"
    and i: "qa_id \<in> set ids"
  shows "(convert_candidate L acc feature properties (JStr qa_id)
            = (fst acc\<lparr> failed_ids := failed_ids (fst acc) @ [JStr qa_id] \<rparr>, snd acc))
       \<or> (\<exists>nf. converted_from L ids feature nf
              \<and> convert_candidate L acc feature properties (JStr qa_id)
                 = (fst acc\<lparr> converted_count := converted_count (fst acc) + 1 \<rparr>,
                    snd acc\<lparr> new_point_features := new_point_features (snd acc) @ [nf],
                             candidates_to_remove := candidates_to_remove (snd acc) @ [JStr qa_id] \<rparr>))"
proof -
  from p obtain kv where kv: "feature = JObj kv" and pk: "map_of kv ''properties'' = Some properties"
    by (cases feature) (auto simp: py_getitem_def split: option.splits)
  from q obtain props where props: "properties = JObj props"
    and idp: "map_of props ID_FIELD_NAME = Some (JStr qa_id)"
    by (cases properties) (auto simp: py_get_def py_get_default_def split: option.splits)
  show ?thesis
  proof (cases "map_of kv ''geometry''")
    case None
    then show ?thesis by (simp add: convert_candidate_def kv py_getitem_def)
  next
    case (Some polygon_geom)
    note g = this
    show ?thesis
    proof (cases "CreateGeometryFromJson L polygon_geom")
      case (Inl e)
      with g show ?thesis by (simp add: convert_candidate_def kv py_getitem_def)
    next
      case (Inr og)
      note cg = this
      show ?thesis
      proof (cases og)
        case None
        with g cg show ?thesis by (simp add: convert_candidate_def kv py_getitem_def)
      next
        case (Some geom)
        note og = this
        show ?thesis
        proof (cases "IsEmpty L geom")
          case True
          with g cg og show ?thesis by (simp add: convert_candidate_def kv py_getitem_def)
        next
          case False
          note ne = this
          show ?thesis
          proof (cases "Centroid L geom")
            case None
            with g cg og ne show ?thesis by (simp add: convert_candidate_def kv py_getitem_def)
          next
            case (Some centroid)
            note c = this
            show ?thesis
            proof (cases "ExportToJson L centroid")
              case (Inl e)
              with g cg og ne c show ?thesis
                by (simp add: convert_candidate_def kv py_getitem_def)
            next
              case (Inr centroid_json)
              with g cg og ne c kv pk props idp i show ?thesis
                by (auto simp: convert_candidate_def py_getitem_def py_setitem_def
                    py_contains_def Let_def converted_from_def)
            qed
          qed
        qed
      qed
    qed
  qed
qed

lemma convert_features_new_points:
  assumes "convert_features L ids acc candidate_features = (acc', err)"
    and "nf \<in> set (new_point_features (snd acc'))"
  shows "nf \<in> set (new_point_features (snd acc))
       \<or> (\<exists>feature \<in> set candidate_features. converted_from L ids feature nf)"
  using assms
proof (induction candidate_features arbitrary: acc)
  case Nil
  then show ?case by simp
next
  case (Cons feature rest)
  show ?case
  proof (cases "py_getitem feature ''properties''")
    case (Inl e)
    with Cons.prems show ?thesis by simp
  next
    case (Inr properties)
    note p = this
    show ?thesis
    proof (cases "py_get properties ID_FIELD_NAME")
      case (Inl e)
      with p Cons.prems show ?thesis by simp
    next
      case (Inr qa)
      note q = this
      show ?thesis
      proof (cases "qa \<in> JStr ` set ids")
        case False
        with p q Cons.prems have
          "convert_features L ids acc rest = (acc', err)" by simp
        from Cons.IH [OF this Cons.prems(2)] show ?thesis by auto
      next
        case True
        then obtain qa_id where qa: "qa = JStr qa_id" and i: "qa_id \<in> set ids" by auto
        from True p q Cons.prems have run:
          "convert_features L ids (convert_candidate L acc feature properties qa) rest = (acc', err)"
          by simp
        from Cons.IH [OF run Cons.prems(2)] have
          "nf \<in> set (new_point_features (snd (convert_candidate L acc feature properties qa)))
           \<or> (\<exists>feature \<in> set rest. converted_from L ids feature nf)" .
        moreover from convert_candidate_result [OF p q [unfolded qa] i, of L acc] have
          "nf \<in> set (new_point_features (snd (convert_candidate L acc feature properties qa)))
            \<Longrightarrow> nf \<in> set (new_point_features (snd acc)) \<or> converted_from L ids feature nf"
          unfolding qa by (elim disjE exE conjE) auto
        ultimately show ?thesis by auto
      qed
    qed
  qed
qed


lemma converted_from_mono:
  "converted_from L ids feature nf \<Longrightarrow> set ids \<subseteq> set ids' \<Longrightarrow> converted_from L ids' feature nf"
  unfolding converted_from_def by blast

lemma set_update_subset: "set (AList.update k v al) \<subseteq> insert (k, v) (set al)"
  by (induction al) auto

lemma read_group_snd:
  "snd (read_group L fs st entry) = snd st \<or>
   (\<exists>existing d fl feats c loc.
       candidate_files fs (fst entry) = Some (Content d)
     \<and> (valid_files fs (fst entry) = None \<and> existing = JArr []
        \<or> (\<exists>vd. valid_files fs (fst entry) = Some (Content vd)
               \<and> py_get_default vd ''features'' (JArr []) = Inr existing))
     \<and> py_get_default d ''features'' (JArr []) = Inr fl \<and> py_iter fl = Inr feats
     \<and> convert_features L (snd entry)
           (fst st, \<lparr> new_point_features = [], candidates_to_remove = [] \<rparr>) feats
         = ((c, loc), None)
     \<and> snd (read_group L fs st entry)
         = AList.update (fst entry)
             \<lparr> existing_features = existing, new_features = new_point_features loc,
                to_remove = candidates_to_remove loc \<rparr> (snd st))"
  by (auto simp: read_group_def Let_def load_json_def
           split: option.splits sum.splits prod.splits stored.splits)

lemma read_group_entry_ok:
  assumes inv: "\<forall>(s, d) \<in> set (snd st). entry_ok L fs ids s d"
    and sub: "set (snd entry) \<subseteq> set ids"
  shows "\<forall>(s, d) \<in> set (snd (read_group L fs st entry)). entry_ok L fs ids s d"
proof -
  from read_group_snd [of L fs st entry] consider
      (unchanged) "snd (read_group L fs st entry) = snd st"
    | (stored) existing d fl feats c loc where
        "candidate_files fs (fst entry) = Some (Content d)"
        "valid_files fs (fst entry) = None \<and> existing = JArr []
          \<or> (\<exists>vd. valid_files fs (fst entry) = Some (Content vd)
                 \<and> py_get_default vd ''features'' (JArr []) = Inr existing)"
        "py_get_default d ''features'' (JArr []) = Inr fl"
        "py_iter fl = Inr feats"
        "convert_features L (snd entry)
           (fst st, \<lparr> new_point_features = [], candidates_to_remove = [] \<rparr>) feats
         = ((c, loc), None)"
        "snd (read_group L fs st entry)
         = AList.update (fst entry)
             \<lparr> existing_features = existing, new_features = new_point_features loc,
                to_remove = candidates_to_remove loc \<rparr> (snd st)"
    by blast
  then show ?thesis
  proof cases
    case unchanged
    with inv show ?thesis by simp
  next
    case stored
    note cf = stored(1) and vf = stored(2) and fl = stored(3) and it = stored(4)
      and conv = stored(5) and res = stored(6)
    have "\<forall>nf \<in> set (new_point_features loc). \<exists>feature \<in> set feats. converted_from L ids feature nf"
    proof
      fix nf assume "nf \<in> set (new_point_features loc)"
      with convert_features_new_points [OF conv, of nf]
      obtain feature where "feature \<in> set feats" "converted_from L (snd entry) feature nf"
        by auto
      with sub show "\<exists>feature \<in> set feats. converted_from L ids feature nf"
        using converted_from_mono by blast
    qed
    with cf vf fl it have
      "entry_ok L fs ids (fst entry)
         \<lparr> existing_features = existing, new_features = new_point_features loc,
            to_remove = candidates_to_remove loc \<rparr>"
      unfolding entry_ok_def by auto
    with inv res set_update_subset show ?thesis
      by (metis (no_types, lifting) case_prodI2 insertE split_conv subsetD)
  qed
qed


lemma read_groups_entry_ok:
  assumes "\<forall>(s, d) \<in> set (snd st). entry_ok L fs ids s d"
    and "\<forall>(s, g) \<in> set entries. set g \<subseteq> set ids"
  shows "\<forall>(s, d) \<in> set (snd (read_groups L fs st entries)). entry_ok L fs ids s d"
  using assms
proof (induction entries arbitrary: st)
  case Nil
  then show ?case by simp
next
  case (Cons entry entries)
  from Cons.prems(2) have "set (snd entry) \<subseteq> set ids" by (cases entry) simp
  from read_group_entry_ok [OF Cons.prems(1) this] Cons.prems(2) Cons.IH show ?case
    by simp
qed

lemma group_by_file_ids:
  assumes "\<forall>(s, g) \<in> set candidates_by_file. set g \<subseteq> A"
  shows "\<forall>(s, g) \<in> set (group_by_file candidates_by_file ids). set g \<subseteq> A \<union> set ids"
  using assms
proof (induction ids arbitrary: candidates_by_file A)
  case Nil
  then show ?case by simp
next
  case (Cons qa_id ids)
  let ?stem = "original_stem_of qa_id"
  let ?old = "case map_of candidates_by_file ?stem of None \<Rightarrow> [] | Some l \<Rightarrow> l"
  have old: "set ?old \<subseteq> A"
  proof (cases "map_of candidates_by_file ?stem")
    case None
    then show ?thesis by simp
  next
    case (Some l)
    then have "(?stem, l) \<in> set candidates_by_file" by (rule map_of_SomeD)
    with Cons.prems Some show ?thesis by auto
  qed
  have "set g \<subseteq> insert qa_id A"
    if m: "(s, g) \<in> set (AList.update ?stem (?old @ [qa_id]) candidates_by_file)" for s g
  proof -
    from m set_update_subset have "(s, g) = (?stem, ?old @ [qa_id]) \<or> (s, g) \<in> set candidates_by_file"
      by fastforce
    with old Cons.prems show ?thesis by auto
  qed
  then have "\<forall>(s, g) \<in> set (AList.update ?stem (?old @ [qa_id]) candidates_by_file).
          set g \<subseteq> insert qa_id A"
    by auto
  from Cons.IH [OF this] show ?case by (auto simp: Let_def)
qed

lemma write_stores_valid:
  assumes "write_stores fs stem data = (fs', err)"
  shows "(s \<noteq> stem \<longrightarrow> valid_files fs' s = valid_files fs s)
       \<and> (valid_files fs' stem = valid_files fs stem
          \<or> (\<exists>existing. existing_features data = JArr existing
                \<and> valid_files fs' stem
                    = Some (Content (feature_collection (stem @ ''_valid'')
                                       (existing @ new_features data)))))"
  using assms
  by (auto simp: write_stores_def Let_def
           split: json.splits if_splits option.splits sum.splits)

lemma write_group_valid:
  assumes "write_group (fs, c) (stem, data) = Inr (fs', c')"
  shows "(s \<noteq> stem \<longrightarrow> valid_files fs' s = valid_files fs s)
       \<and> (valid_files fs' stem = valid_files fs stem
          \<or> (\<exists>existing. existing_features data = JArr existing
                \<and> valid_files fs' stem
                    = Some (Content (feature_collection (stem @ ''_valid'')
                                       (existing @ new_features data)))))"
proof -
  obtain fs1 err where w: "write_stores fs stem data = (fs1, err)"
    by (cases "write_stores fs stem data")
  with assms have "fs' = fs1"
    by (auto simp: write_group_def Let_def split: option.splits sum.splits)
  with write_stores_valid [OF w, of s] show ?thesis by simp
qed

lemma write_groups_valid:
  assumes "write_groups (fs, c) entries = Inr (fs', c')"
  shows "valid_files fs' stem = valid_files fs stem
       \<or> (\<exists>data existing. (stem, data) \<in> set entries \<and> existing_features data = JArr existing
             \<and> valid_files fs' stem
                 = Some (Content (feature_collection (stem @ ''_valid'')
                                    (existing @ new_features data))))"
  using assms
proof (induction entries arbitrary: fs c)
  case Nil
  then show ?case by simp
next
  case (Cons entry entries)
  obtain s data where entry: "entry = (s, data)" by (cases entry)
  from Cons.prems obtain fs1 c1 where
    w: "write_group (fs, c) (s, data) = Inr (fs1, c1)"
    and rest: "write_groups (fs1, c1) entries = Inr (fs', c')"
    by (auto simp: entry split: sum.splits)
  from Cons.IH [OF rest] write_group_valid [OF w, of stem] show ?case
    by (cases "s = stem") (auto simp: entry)
qed

lemma reconcile_report_valid:
  assumes "reconcile_report fs ids failed = Inr fs'"
  shows "valid_files fs' = valid_files fs"
  using assms by (auto simp: reconcile_report_def Let_def split: sum.splits if_splits)


lemma converted_fromD:
  assumes "converted_from L ids feature nf"
  shows "\<exists>props qa_id polygon_geom geom centroid centroid_json props'.
             py_getitem feature ''properties'' = Inr (JObj props)
           \<and> py_getitem feature ''geometry'' = Inr polygon_geom
           \<and> map_of props ID_FIELD_NAME = Some (JStr qa_id) \<and> qa_id \<in> set ids
           \<and> CreateGeometryFromJson L polygon_geom = Inr (Some geom)
           \<and> Centroid L geom = Some centroid
           \<and> ExportToJson L centroid = Inr centroid_json
           \<and> py_getitem nf ''geometry'' = Inr centroid_json
           \<and> py_getitem nf ''properties'' = Inr (JObj props')
           \<and> map_of props' ID_FIELD_NAME = Some (JStr qa_id)
           \<and> (map_of props ''Area'' \<noteq> None \<longrightarrow> map_of props' ''Area'' = Some (JNum 4.0))
           \<and> (map_of props ''Area'' = None \<longrightarrow> props' = props)
           \<and> (\<forall>k. k \<noteq> ''Area'' \<longrightarrow> map_of props' k = map_of props k)
           \<and> (\<forall>k. k \<noteq> ''geometry'' \<and> k \<noteq> ''properties''
                  \<longrightarrow> py_getitem nf k = py_getitem feature k)"
proof -
  from assms obtain kv props qa_id polygon_geom geom centroid centroid_json where
    f: "feature = JObj kv" and p: "map_of kv ''properties'' = Some (JObj props)"
    and i: "map_of props ID_FIELD_NAME = Some (JStr qa_id)" "qa_id \<in> set ids"
    and g: "map_of kv ''geometry'' = Some polygon_geom"
    and c: "CreateGeometryFromJson L polygon_geom = Inr (Some geom)"
       "Centroid L geom = Some centroid" "ExportToJson L centroid = Inr centroid_json"
    and nf: "nf = (if ''Area'' \<in> fst ` set props
                 then JObj (AList.update ''properties''
                              (JObj (AList.update ''Area'' (JNum MIN_AREA_HA_FOR_POLYGON) props))
                              (AList.update ''geometry'' centroid_json kv))
                 else JObj (AList.update ''geometry'' centroid_json kv))"
    unfolding converted_from_def by blast
  have area: "''Area'' \<in> fst ` set props \<longleftrightarrow> map_of props ''Area'' \<noteq> None"
    by (simp add: map_of_eq_None_iff)
  show ?thesis
  proof (cases "''Area'' \<in> fst ` set props")
    case True
    let ?props' = "AList.update ''Area'' (JNum MIN_AREA_HA_FOR_POLYGON) props"
    from True area have ne: "map_of props ''Area'' \<noteq> None" by simp
    from True nf f p i g c ne have
      "py_getitem feature ''properties'' = Inr (JObj props)
           \<and> py_getitem feature ''geometry'' = Inr polygon_geom
           \<and> map_of props ID_FIELD_NAME = Some (JStr qa_id) \<and> qa_id \<in> set ids
           \<and> CreateGeometryFromJson L polygon_geom = Inr (Some geom)
           \<and> Centroid L geom = Some centroid
           \<and> ExportToJson L centroid = Inr centroid_json
           \<and> py_getitem nf ''geometry'' = Inr centroid_json
           \<and> py_getitem nf ''properties'' = Inr (JObj ?props')
           \<and> map_of ?props' ID_FIELD_NAME = Some (JStr qa_id)
           \<and> (map_of props ''Area'' \<noteq> None \<longrightarrow> map_of ?props' ''Area'' = Some (JNum 4.0))
           \<and> (\<forall>k. k \<noteq> ''Area'' \<longrightarrow> map_of ?props' k = map_of props k)
           \<and> (\<forall>k. k \<noteq> ''geometry'' \<and> k \<noteq> ''properties''
                  \<longrightarrow> py_getitem nf k = py_getitem feature k)"
      by (simp add: py_getitem_def update_conv' ID_FIELD_NAME_def MIN_AREA_HA_FOR_POLYGON_def)
    moreover from ne have "map_of props ''Area'' = None \<longrightarrow> ?props' = props" by blast
    ultimately have
      "py_getitem feature ''properties'' = Inr (JObj props)
           \<and> py_getitem feature ''geometry'' = Inr polygon_geom
           \<and> map_of props ID_FIELD_NAME = Some (JStr qa_id) \<and> qa_id \<in> set ids
           \<and> CreateGeometryFromJson L polygon_geom = Inr (Some geom)
           \<and> Centroid L geom = Some centroid
           \<and> ExportToJson L centroid = Inr centroid_json
           \<and> py_getitem nf ''geometry'' = Inr centroid_json
           \<and> py_getitem nf ''properties'' = Inr (JObj ?props')
           \<and> map_of ?props' ID_FIELD_NAME = Some (JStr qa_id)
           \<and> (map_of props ''Area'' \<noteq> None \<longrightarrow> map_of ?props' ''Area'' = Some (JNum 4.0))
           \<and> (map_of props ''Area'' = None \<longrightarrow> ?props' = props)
           \<and> (\<forall>k. k \<noteq> ''Area'' \<longrightarrow> map_of ?props' k = map_of props k)
           \<and> (\<forall>k. k \<noteq> ''geometry'' \<and> k \<noteq> ''properties''
                  \<longrightarrow> py_getitem nf k = py_getitem feature k)"
      by (elim conjE) (intro conjI; assumption)
    then show ?thesis
      apply -
      apply (rule exI)+
      apply assumption
      done
  next
    case False
    from False area have no: "map_of props ''Area'' = None" by simp
    from False nf f p i g c no have
      "py_getitem feature ''properties'' = Inr (JObj props)
           \<and> py_getitem feature ''geometry'' = Inr polygon_geom
           \<and> map_of props ID_FIELD_NAME = Some (JStr qa_id) \<and> qa_id \<in> set ids
           \<and> CreateGeometryFromJson L polygon_geom = Inr (Some geom)
           \<and> Centroid L geom = Some centroid
           \<and> ExportToJson L centroid = Inr centroid_json
           \<and> py_getitem nf ''geometry'' = Inr centroid_json
           \<and> py_getitem nf ''properties'' = Inr (JObj props)
           \<and> map_of props ID_FIELD_NAME = Some (JStr qa_id)
           \<and> (map_of props ''Area'' \<noteq> None \<longrightarrow> map_of props ''Area'' = Some (JNum 4.0))
           \<and> (map_of props ''Area'' = None \<longrightarrow> props = props)
           \<and> (\<forall>k. k \<noteq> ''Area'' \<longrightarrow> map_of props k = map_of props k)
           \<and> (\<forall>k. k \<noteq> ''geometry'' \<and> k \<noteq> ''properties''
                  \<longrightarrow> py_getitem nf k = py_getitem feature k)"
      by (simp add: py_getitem_def update_conv')
    then show ?thesis
      apply -
      apply (rule exI)+
      apply assumption
      done
  qed
qed

text \<open>The conversion on the sample session, evaluated.\<close>

lemma sample_stems:
  "original_stem_of ''plots_1'' = ''plots''"
  "original_stem_of ''plots_2'' = ''plots''"
  "original_stem_of ''plots_3'' = ''plots''"
  "original_stem_of ''roads_1'' = ''roads''"
  "original_stem_of ''plots_3-p1'' = ''plots''"
  "original_stem_of ''my-plots_0'' = ''my''"
  by (simp_all add: original_stem_of_def first_part_def join_def)

lemma sample_groups:
  "group_by_file [] [''plots_1''] = [(''plots'', [''plots_1''])]"
  "group_by_file [] [''plots_2''] = [(''plots'', [''plots_2''])]"
  "group_by_file [] [''roads_1''] = [(''roads'', [''roads_1''])]"
  by (simp_all add: sample_stems)

lemma sample_not_found:
  "batch_convert_candidates_to_points sample_lib sample_session [''plots_1'']
     = Inr ((0, []),
            sample_session\<lparr> detailed_report := Some (Content
              [report_row ''plots_1'' ''Valid'' ''Converted to Point'',
               report_row ''plots_2'' ''Candidate for Conversion'' ''Identified'',
               report_row ''plots_3'' ''Valid'' ''N/A'']) \<rparr>)"
  by (simp add: batch_convert_candidates_to_points_def sample_groups read_group_def
      sample_session_def feature_collection_def py_defs small_square_feature_def
      ID_FIELD_NAME_def reconcile_report_def report_row_def Let_def sample_stems)

lemma sample_absent:
  "batch_convert_candidates_to_points sample_lib sample_session [''roads_1'']
     = Inr ((0, [JStr ''roads_1'']), sample_session)"
  by (simp add: batch_convert_candidates_to_points_def sample_groups read_group_def
      sample_session_def feature_collection_def py_defs small_square_feature_def
      ID_FIELD_NAME_def reconcile_report_def report_row_def Let_def sample_stems)

lemma sample_converted:
  "batch_convert_candidates_to_points sample_lib sample_session [''plots_2'']
     = Inr ((1, []),
            sample_session\<lparr>
              valid_files := (valid_files sample_session)
                (''plots'' \<mapsto> Content (feature_collection ''plots_valid''
                                        [large_square_feature, converted_small_square])),
              candidate_files := (candidate_files sample_session)
                (''plots'' \<mapsto> Content (feature_collection ''plots_candidates'' [])),
              detailed_report := Some (Content
                [report_row ''plots_1'' ''Requires Review'' ''Auto-fixed'',
                 report_row ''plots_2'' ''Valid'' ''Converted to Point'',
                 report_row ''plots_3'' ''Valid'' ''N/A'']) \<rparr>)"
  by (simp add: batch_convert_candidates_to_points_def sample_groups read_group_def
      sample_session_def feature_collection_def py_defs small_square_feature_def
      ID_FIELD_NAME_def reconcile_report_def report_row_def Let_def sample_stems
      convert_candidate_def sample_defs sample_from_json_def sample_to_json_def polygon_json_def
      json_ring_def json_xy_def converted_small_square_def write_group_def write_stores_def
      fun_upd_def)




text \<open>
  C7. When the conversion returns and has rewritten the valid file of a
  dataset stem, the file holds the features it held before followed by new features, and
  each new feature comes from a feature of the candidates file of that stem whose
  identifier was requested: its geometry is the library's centroid of the geometry of
  that candidate (written as GeoJSON), its identifier is the candidate's, its
  \<open>Area\<close> property is 4.0 if the candidate had one, and nothing else is changed.
  Where the centroid lies with respect to the bounding extent of the candidate's geometry
  is not part of the statement: the code takes the point from the library and checks
  nothing about it.
\<close>

theorem converted_feature_is_centroid_point:
  assumes run: "batch_convert_candidates_to_points L fs qa_ids_to_convert = Inr ((n, failed), fs')"
    and changed: "valid_files fs' stem \<noteq> valid_files fs stem"
  shows "\<exists>existing new candidates_data feature_list candidate_features.
           valid_files fs' stem
             = Some (Content (feature_collection (stem @ ''_valid'') (existing @ new)))
         \<and> (valid_files fs stem = None \<and> existing = []
            \<or> (\<exists>d. valid_files fs stem = Some (Content d)
                   \<and> py_get_default d ''features'' (JArr []) = Inr (JArr existing)))
         \<and> candidate_files fs stem = Some (Content candidates_data)
         \<and> py_get_default candidates_data ''features'' (JArr []) = Inr feature_list
         \<and> py_iter feature_list = Inr candidate_features
         \<and> (\<forall>nf \<in> set new. \<exists>feature \<in> set candidate_features.
               \<exists>props qa_id polygon_geom geom centroid centroid_json props'.
                   py_getitem feature ''properties'' = Inr (JObj props)
                 \<and> py_getitem feature ''geometry'' = Inr polygon_geom
                 \<and> map_of props ID_FIELD_NAME = Some (JStr qa_id)
                 \<and> qa_id \<in> set qa_ids_to_convert
                 \<and> CreateGeometryFromJson L polygon_geom = Inr (Some geom)
                 \<and> Centroid L geom = Some centroid
                 \<and> ExportToJson L centroid = Inr centroid_json
                 \<and> py_getitem nf ''geometry'' = Inr centroid_json
                 \<and> py_getitem nf ''properties'' = Inr (JObj props')
                 \<and> map_of props' ID_FIELD_NAME = Some (JStr qa_id)
                 \<and> (map_of props ''Area'' \<noteq> None \<longrightarrow> map_of props' ''Area'' = Some (JNum 4.0))
                 \<and> (map_of props ''Area'' = None \<longrightarrow> props' = props)
                 \<and> (\<forall>k. k \<noteq> ''Area'' \<longrightarrow> map_of props' k = map_of props k)
                 \<and> (\<forall>k. k \<noteq> ''geometry'' \<and> k \<noteq> ''properties''
                        \<longrightarrow> py_getitem nf k = py_getitem feature k))"
proof -
  let ?groups = "group_by_file [] qa_ids_to_convert"
  let ?read = "read_groups L fs (\<lparr> converted_count = 0, failed_ids = [] \<rparr>, []) ?groups"
  from run obtain fs1 c where
    w: "write_groups (fs, fst ?read) (snd ?read) = Inr (fs1, c)"
    and r: "reconcile_report fs1 qa_ids_to_convert (failed_ids c) = Inr fs'"
    by (auto simp: batch_convert_candidates_to_points_def Let_def split: if_splits sum.splits)
  from reconcile_report_valid [OF r] changed have "valid_files fs1 stem \<noteq> valid_files fs stem"
    by simp
  with write_groups_valid [OF w, of stem] obtain data existing where
    entry: "(stem, data) \<in> set (snd ?read)"
    and ex: "existing_features data = JArr existing"
    and written: "valid_files fs1 stem
                 = Some (Content (feature_collection (stem @ ''_valid'')
                                    (existing @ new_features data)))"
    by blast
  have "\<forall>(s, g) \<in> set ?groups. set g \<subseteq> {} \<union> set qa_ids_to_convert"
    by (rule group_by_file_ids) simp
  then have "\<forall>(s, g) \<in> set ?groups. set g \<subseteq> set qa_ids_to_convert" by simp
  from read_groups_entry_ok [OF _ this, of "(\<lparr> converted_count = 0, failed_ids = [] \<rparr>, [])" L fs]
    entry
  have ok: "entry_ok L fs qa_ids_to_convert stem data" by auto
  then obtain d fl feats where
    cf: "candidate_files fs stem = Some (Content d)"
    and fl: "py_get_default d ''features'' (JArr []) = Inr fl"
    and it: "py_iter fl = Inr feats"
    and conv: "\<forall>nf \<in> set (new_features data).
                 \<exists>feature \<in> set feats. converted_from L qa_ids_to_convert feature nf"
    unfolding entry_ok_def by blast
  from ok ex have old: "valid_files fs stem = None \<and> existing = []
            \<or> (\<exists>d. valid_files fs stem = Some (Content d)
                   \<and> py_get_default d ''features'' (JArr []) = Inr (JArr existing))"
    unfolding entry_ok_def by auto
  have each: "\<exists>feature \<in> set feats.
               \<exists>props qa_id polygon_geom geom centroid centroid_json props'.
                   py_getitem feature ''properties'' = Inr (JObj props)
                 \<and> py_getitem feature ''geometry'' = Inr polygon_geom
                 \<and> map_of props ID_FIELD_NAME = Some (JStr qa_id)
                 \<and> qa_id \<in> set qa_ids_to_convert
                 \<and> CreateGeometryFromJson L polygon_geom = Inr (Some geom)
                 \<and> Centroid L geom = Some centroid
                 \<and> ExportToJson L centroid = Inr centroid_json
                 \<and> py_getitem nf ''geometry'' = Inr centroid_json
                 \<and> py_getitem nf ''properties'' = Inr (JObj props')
                 \<and> map_of props' ID_FIELD_NAME = Some (JStr qa_id)
                 \<and> (map_of props ''Area'' \<noteq> None \<longrightarrow> map_of props' ''Area'' = Some (JNum 4.0))
                 \<and> (map_of props ''Area'' = None \<longrightarrow> props' = props)
                 \<and> (\<forall>k. k \<noteq> ''Area'' \<longrightarrow> map_of props' k = map_of props k)
                 \<and> (\<forall>k. k \<noteq> ''geometry'' \<and> k \<noteq> ''properties''
                        \<longrightarrow> py_getitem nf k = py_getitem feature k)"
    if nf: "nf \<in> set (new_features data)" for nf
  proof -
    from conv nf obtain feature where
      m: "feature \<in> set feats" and cv: "converted_from L qa_ids_to_convert feature nf"
      by blast
    from converted_fromD [OF cv] obtain props qa_id polygon_geom geom centroid centroid_json props'
      where facts: "py_getitem feature ''properties'' = Inr (JObj props)"
        "py_getitem feature ''geometry'' = Inr polygon_geom"
        "map_of props ID_FIELD_NAME = Some (JStr qa_id)" "qa_id \<in> set qa_ids_to_convert"
        "CreateGeometryFromJson L polygon_geom = Inr (Some geom)"
        "Centroid L geom = Some centroid"
        "ExportToJson L centroid = Inr centroid_json"
        "py_getitem nf ''geometry'' = Inr centroid_json"
        "py_getitem nf ''properties'' = Inr (JObj props')"
        "map_of props' ID_FIELD_NAME = Some (JStr qa_id)"
        "map_of props ''Area'' \<noteq> None \<longrightarrow> map_of props' ''Area'' = Some (JNum 4.0)"
        "map_of props ''Area'' = None \<longrightarrow> props' = props"
        "\<forall>k. k \<noteq> ''Area'' \<longrightarrow> map_of props' k = map_of props k"
        "\<forall>k. k \<noteq> ''geometry'' \<and> k \<noteq> ''properties''
                  \<longrightarrow> py_getitem nf k = py_getitem feature k"
      by (elim exE conjE)
    from facts have
      "py_getitem feature ''properties'' = Inr (JObj props)
                 \<and> py_getitem feature ''geometry'' = Inr polygon_geom
                 \<and> map_of props ID_FIELD_NAME = Some (JStr qa_id)
                 \<and> qa_id \<in> set qa_ids_to_convert
                 \<and> CreateGeometryFromJson L polygon_geom = Inr (Some geom)
                 \<and> Centroid L geom = Some centroid
                 \<and> ExportToJson L centroid = Inr centroid_json
                 \<and> py_getitem nf ''geometry'' = Inr centroid_json
                 \<and> py_getitem nf ''properties'' = Inr (JObj props')
                 \<and> map_of props' ID_FIELD_NAME = Some (JStr qa_id)
                 \<and> (map_of props ''Area'' \<noteq> None \<longrightarrow> map_of props' ''Area'' = Some (JNum 4.0))
                 \<and> (map_of props ''Area'' = None \<longrightarrow> props' = props)
                 \<and> (\<forall>k. k \<noteq> ''Area'' \<longrightarrow> map_of props' k = map_of props k)
                 \<and> (\<forall>k. k \<noteq> ''geometry'' \<and> k \<noteq> ''properties''
                        \<longrightarrow> py_getitem nf k = py_getitem feature k)"
      by (intro conjI) assumption+
    then have "\<exists>props qa_id polygon_geom geom centroid centroid_json props'.
                   py_getitem feature ''properties'' = Inr (JObj props)
                 \<and> py_getitem feature ''geometry'' = Inr polygon_geom
                 \<and> map_of props ID_FIELD_NAME = Some (JStr qa_id)
                 \<and> qa_id \<in> set qa_ids_to_convert
                 \<and> CreateGeometryFromJson L polygon_geom = Inr (Some geom)
                 \<and> Centroid L geom = Some centroid
                 \<and> ExportToJson L centroid = Inr centroid_json
                 \<and> py_getitem nf ''geometry'' = Inr centroid_json
                 \<and> py_getitem nf ''properties'' = Inr (JObj props')
                 \<and> map_of props' ID_FIELD_NAME = Some (JStr qa_id)
                 \<and> (map_of props ''Area'' \<noteq> None \<longrightarrow> map_of props' ''Area'' = Some (JNum 4.0))
                 \<and> (map_of props ''Area'' = None \<longrightarrow> props' = props)
                 \<and> (\<forall>k. k \<noteq> ''Area'' \<longrightarrow> map_of props' k = map_of props k)
                 \<and> (\<forall>k. k \<noteq> ''geometry'' \<and> k \<noteq> ''properties''
                        \<longrightarrow> py_getitem nf k = py_getitem feature k)"
      apply -
      apply (rule exI)+
      apply assumption
      done
    with m show ?thesis
      apply -
      apply (rule bexI)
       apply assumption
      apply assumption
      done
  qed
  from reconcile_report_valid [OF r] written have
    "valid_files fs' stem
       = Some (Content (feature_collection (stem @ ''_valid'') (existing @ new_features data)))"
    by simp
  moreover note old cf fl it
  moreover from each have "\<forall>nf \<in> set (new_features data). \<exists>feature \<in> set feats.
               \<exists>props qa_id polygon_geom geom centroid centroid_json props'.
                   py_getitem feature ''properties'' = Inr (JObj props)
                 \<and> py_getitem feature ''geometry'' = Inr polygon_geom
                 \<and> map_of props ID_FIELD_NAME = Some (JStr qa_id)
                 \<and> qa_id \<in> set qa_ids_to_convert
                 \<and> CreateGeometryFromJson L polygon_geom = Inr (Some geom)
                 \<and> Centroid L geom = Some centroid
                 \<and> ExportToJson L centroid = Inr centroid_json
                 \<and> py_getitem nf ''geometry'' = Inr centroid_json
                 \<and> py_getitem nf ''properties'' = Inr (JObj props')
                 \<and> map_of props' ID_FIELD_NAME = Some (JStr qa_id)
                 \<and> (map_of props ''Area'' \<noteq> None \<longrightarrow> map_of props' ''Area'' = Some (JNum 4.0))
                 \<and> (map_of props ''Area'' = None \<longrightarrow> props' = props)
                 \<and> (\<forall>k. k \<noteq> ''Area'' \<longrightarrow> map_of props' k = map_of props k)
                 \<and> (\<forall>k. k \<noteq> ''geometry'' \<and> k \<noteq> ''properties''
                        \<longrightarrow> py_getitem nf k = py_getitem feature k)"
    by (rule ballI)
  ultimately show ?thesis
    apply -
    apply (rule exI)+
    apply (intro conjI)
    apply assumption+
    done
qed


theorem converted_feature_is_centroid_point_witness:
  "batch_convert_candidates_to_points sample_lib sample_session [''plots_2'']
     = Inr ((1, []),
            sample_session\<lparr>
              valid_files := (valid_files sample_session)
                (''plots'' \<mapsto> Content (feature_collection ''plots_valid''
                                        [large_square_feature, converted_small_square])),
              candidate_files := (candidate_files sample_session)
                (''plots'' \<mapsto> Content (feature_collection ''plots_candidates'' [])),
              detailed_report := Some (Content
                [report_row ''plots_1'' ''Requires Review'' ''Auto-fixed'',
                 report_row ''plots_2'' ''Valid'' ''Converted to Point'',
                 report_row ''plots_3'' ''Valid'' ''N/A'']) \<rparr>)
   \<and> (\<exists>feature props geom centroid centroid_json props'.
         py_getitem feature ''properties'' = Inr (JObj props)
       \<and> map_of props ID_FIELD_NAME = Some (JStr ''plots_2'')
       \<and> Centroid sample_lib geom = Some centroid
       \<and> ExportToJson sample_lib centroid = Inr centroid_json
       \<and> py_getitem converted_small_square ''geometry'' = Inr centroid_json
       \<and> py_getitem converted_small_square ''properties'' = Inr (JObj props')
       \<and> map_of props' ID_FIELD_NAME = Some (JStr ''plots_2'')
       \<and> map_of props' ''Area'' = Some (JNum 4.0))"
proof -
  let ?fs' = "sample_session\<lparr>
              valid_files := (valid_files sample_session)
                (''plots'' \<mapsto> Content (feature_collection ''plots_valid''
                                        [large_square_feature, converted_small_square])),
              candidate_files := (candidate_files sample_session)
                (''plots'' \<mapsto> Content (feature_collection ''plots_candidates'' [])),
              detailed_report := Some (Content
                [report_row ''plots_1'' ''Requires Review'' ''Auto-fixed'',
                 report_row ''plots_2'' ''Valid'' ''Converted to Point'',
                 report_row ''plots_3'' ''Valid'' ''N/A'']) \<rparr>"
  have changed: "valid_files ?fs' ''plots'' \<noteq> valid_files sample_session ''plots''"
    by (simp add: sample_session_def feature_collection_def)
  from converted_feature_is_centroid_point
         [OF sample_converted changed]
  obtain existing new candidates_data feature_list candidate_features where
    v: "valid_files ?fs' ''plots''
             = Some (Content (feature_collection (''plots'' @ ''_valid'') (existing @ new)))"
    and old: "valid_files sample_session ''plots'' = None \<and> existing = []
            \<or> (\<exists>d. valid_files sample_session ''plots'' = Some (Content d)
                   \<and> py_get_default d ''features'' (JArr []) = Inr (JArr existing))"
    and each: "\<forall>nf \<in> set new. \<exists>feature \<in> set candidate_features.
               \<exists>props qa_id polygon_geom geom centroid centroid_json props'.
                   py_getitem feature ''properties'' = Inr (JObj props)
                 \<and> py_getitem feature ''geometry'' = Inr polygon_geom
                 \<and> map_of props ID_FIELD_NAME = Some (JStr qa_id)
                 \<and> qa_id \<in> set [''plots_2'']
                 \<and> CreateGeometryFromJson sample_lib polygon_geom = Inr (Some geom)
                 \<and> Centroid sample_lib geom = Some centroid
                 \<and> ExportToJson sample_lib centroid = Inr centroid_json
                 \<and> py_getitem nf ''geometry'' = Inr centroid_json
                 \<and> py_getitem nf ''properties'' = Inr (JObj props')
                 \<and> map_of props' ID_FIELD_NAME = Some (JStr qa_id)
                 \<and> (map_of props ''Area'' \<noteq> None \<longrightarrow> map_of props' ''Area'' = Some (JNum 4.0))
                 \<and> (map_of props ''Area'' = None \<longrightarrow> props' = props)
                 \<and> (\<forall>k. k \<noteq> ''Area'' \<longrightarrow> map_of props' k = map_of props k)
                 \<and> (\<forall>k. k \<noteq> ''geometry'' \<and> k \<noteq> ''properties''
                        \<longrightarrow> py_getitem nf k = py_getitem feature k)"
    by (elim exE conjE)
  from old have "existing = [large_square_feature]"
    by (simp add: sample_session_def feature_collection_def py_get_default_def)
  with v have "new = [converted_small_square]"
    by (simp add: sample_session_def feature_collection_def)
  with each obtain feature props qa_id polygon_geom geom centroid centroid_json props' where
    facts: "py_getitem feature ''properties'' = Inr (JObj props)"
      "map_of props ID_FIELD_NAME = Some (JStr qa_id)"
      "qa_id \<in> set [''plots_2'']"
      "Centroid sample_lib geom = Some centroid"
      "ExportToJson sample_lib centroid = Inr centroid_json"
      "py_getitem converted_small_square ''geometry'' = Inr centroid_json"
      "py_getitem converted_small_square ''properties'' = Inr (JObj props')"
      "map_of props' ID_FIELD_NAME = Some (JStr qa_id)"
    by auto
  from facts(7) have "map_of props' ''Area'' = Some (JNum 4.0)"
    by (auto simp: converted_small_square_def py_getitem_def)
  with facts have
    "py_getitem feature ''properties'' = Inr (JObj props)
       \<and> map_of props ID_FIELD_NAME = Some (JStr ''plots_2'')
       \<and> Centroid sample_lib geom = Some centroid
       \<and> ExportToJson sample_lib centroid = Inr centroid_json
       \<and> py_getitem converted_small_square ''geometry'' = Inr centroid_json
       \<and> py_getitem converted_small_square ''properties'' = Inr (JObj props')
       \<and> map_of props' ID_FIELD_NAME = Some (JStr ''plots_2'')
       \<and> map_of props' ''Area'' = Some (JNum 4.0)"
    by simp
  then have "\<exists>feature props geom centroid centroid_json props'.
         py_getitem feature ''properties'' = Inr (JObj props)
       \<and> map_of props ID_FIELD_NAME = Some (JStr ''plots_2'')
       \<and> Centroid sample_lib geom = Some centroid
       \<and> ExportToJson sample_lib centroid = Inr centroid_json
       \<and> py_getitem converted_small_square ''geometry'' = Inr centroid_json
       \<and> py_getitem converted_small_square ''properties'' = Inr (JObj props')
       \<and> map_of props' ID_FIELD_NAME = Some (JStr ''plots_2'')
       \<and> map_of props' ''Area'' = Some (JNum 4.0)"
    apply -
    apply (rule exI)+
    apply assumption
    done
  with sample_converted show ?thesis by (rule conjI)
qed

text \<open>
  The self-intersecting \<open>lopsided_bowtie\<close> becomes a candidate when a dataset is
  partitioned with autofix on: it is classified "Auto-fixed" and written unrepaired.
\<close>

lemma lopsided_is_a_candidate:
  "\<exists>st. partition_and_process_dataset formula_lib
           \<lparr> GetLayer = Some \<lparr> GetSpatialRef = Some ''WGS 84'',
                               features = [sample_feature ''plots_0'' (Some lopsided_bowtie)] \<rparr> \<rparr>
           ''plots'' False True True = Inr st
     \<and> map final_status (detailed_rows st) = [''Candidate for Conversion'']
     \<and> map action_taken (detailed_rows st) = [''Auto-fixed'']
     \<and> map out_geometry (candidates_layer st) = [Some lopsided_bowtie]"
  by (simp add: partition_and_process_dataset_def process_feature_def initial_pstate_def
      validate_and_fix_geometry_def get_area_in_hectares_def sample_attribute_status
      ID_FIELD_NAME_def py_or_def SetFrom_def SetGeometry_def SetField_def Let_def
      sample_feature_def formula_lib_def area_centroid_def lopsided_bowtie_def
      lopsided_fixed_def lopsided_ring_def sample_defs)


text \<open>The conversion of that candidate, evaluated.\<close>

lemma lopsided_centroid:
  "Centroid formula_lib lopsided_bowtie = Some (point 0.0004 (1 / 6000))"
  by (simp add: formula_lib_def area_centroid_def lopsided_bowtie_def lopsided_ring_def
      polygon_def ring_def wkb_defs point_def)

lemma lopsided_outside:
  "\<not> within_envelope (point 0.0004 (1 / 6000)) lopsided_bowtie"
  by (simp add: within_envelope_def lopsided_bowtie_def lopsided_ring_def
      polygon_def ring_def wkb_defs point_def GetX_def GetY_def)

lemma lopsided_stem: "original_stem_of ''plots_0'' = ''plots''"
  by (simp add: original_stem_of_def first_part_def join_def)

lemma lopsided_converted:
  "batch_convert_candidates_to_points formula_lib lopsided_session [''plots_0'']
     = Inr ((1, []),
            lopsided_session\<lparr>
              valid_files := (valid_files lopsided_session)
                (''plots'' \<mapsto> Content (feature_collection ''plots_valid'' [converted_lopsided])),
              candidate_files := (candidate_files lopsided_session)
                (''plots'' \<mapsto> Content (feature_collection ''plots_candidates'' [])),
              detailed_report := Some (Content
                [report_row ''plots_0'' ''Valid'' ''Converted to Point'']) \<rparr>)"
  by (simp add: batch_convert_candidates_to_points_def read_group_def lopsided_stem
      lopsided_session_def feature_collection_def py_defs lopsided_feature_def
      ID_FIELD_NAME_def reconcile_report_def report_row_def Let_def
      convert_candidate_def formula_lib_def area_centroid_def lopsided_bowtie_def
      lopsided_ring_def sample_defs sample_from_json_def sample_to_json_def polygon_json_def
      json_ring_def json_xy_def converted_lopsided_def write_group_def write_stores_def
      fun_upd_def)

text \<open>
  C7 as stated, with the centroid point lying within the bounding extent of the original
  polygon, does not hold: converting the candidate \<open>plots_0\<close> succeeds, and the point
  written for it, the signed-area centroid of \<open>lopsided_bowtie\<close>, has longitude 0.0004
  while no vertex of the polygon lies east of 0.0003.
\<close>

theorem converted_point_outside_extent:
  "batch_convert_candidates_to_points formula_lib lopsided_session [''plots_0'']
     = Inr ((1, []),
            lopsided_session\<lparr>
              valid_files := (valid_files lopsided_session)
                (''plots'' \<mapsto> Content (feature_collection ''plots_valid'' [converted_lopsided])),
              candidate_files := (candidate_files lopsided_session)
                (''plots'' \<mapsto> Content (feature_collection ''plots_candidates'' [])),
              detailed_report := Some (Content
                [report_row ''plots_0'' ''Valid'' ''Converted to Point'']) \<rparr>)
   \<and> py_getitem lopsided_feature ''geometry'' = Inr (polygon_json [lopsided_ring])
   \<and> CreateGeometryFromJson formula_lib (polygon_json [lopsided_ring]) = Inr (Some lopsided_bowtie)
   \<and> Centroid formula_lib lopsided_bowtie = Some (point 0.0004 (1 / 6000))
   \<and> ExportToJson formula_lib (point 0.0004 (1 / 6000))
       = Inr (JObj [(''type'', JStr ''Point''),
                    (''coordinates'', JArr [JNum 0.0004, JNum (1 / 6000)])])
   \<and> py_getitem converted_lopsided ''geometry''
       = Inr (JObj [(''type'', JStr ''Point''),
                    (''coordinates'', JArr [JNum 0.0004, JNum (1 / 6000)])])
   \<and> get_all_points lopsided_bowtie = lopsided_ring
   \<and> \<not> within_envelope (point 0.0004 (1 / 6000)) lopsided_bowtie"
proof -
  have "py_getitem lopsided_feature ''geometry'' = Inr (polygon_json [lopsided_ring])"
    and "py_getitem converted_lopsided ''geometry''
       = Inr (JObj [(''type'', JStr ''Point''),
                    (''coordinates'', JArr [JNum 0.0004, JNum (1 / 6000)])])"
    by (simp_all add: lopsided_feature_def converted_lopsided_def py_getitem_def)
  moreover have
    "CreateGeometryFromJson formula_lib (polygon_json [lopsided_ring]) = Inr (Some lopsided_bowtie)"
    by (simp add: formula_lib_def sample_lib_def sample_from_json_def polygon_json_def py_defs
        json_ring_def json_xy_def lopsided_bowtie_def lopsided_ring_def)
  moreover have "ExportToJson formula_lib (point 0.0004 (1 / 6000))
       = Inr (JObj [(''type'', JStr ''Point''),
                    (''coordinates'', JArr [JNum 0.0004, JNum (1 / 6000)])])"
    by (simp add: formula_lib_def sample_lib_def sample_to_json_def point_def GetX_def GetY_def)
  moreover have "get_all_points lopsided_bowtie = lopsided_ring"
    by (simp add: lopsided_bowtie_def polygon_def ring_def wkb_defs)
  ultimately show ?thesis
    using lopsided_converted lopsided_centroid lopsided_outside by simp
qed

section \<open>Identifiers that are not in a candidate store\<close>

text \<open>
  When the candidates file derived from an identifier does not exist, the identifier is
  reported in \<open>failed_ids\<close>: the whole group of the file is.
\<close>

lemma group_by_file_keeps:
  assumes "map_of candidates_by_file s = Some g" and "x \<in> set g"
  shows "\<exists>g'. map_of (group_by_file candidates_by_file ids) s = Some g' \<and> x \<in> set g'"
  using assms
proof (induction ids arbitrary: candidates_by_file g)
  case Nil
  then show ?case by simp
next
  case (Cons qa_id ids)
  let ?stem = "original_stem_of qa_id"
  let ?old = "case map_of candidates_by_file ?stem of None \<Rightarrow> [] | Some l \<Rightarrow> l"
  let ?next = "AList.update ?stem (?old @ [qa_id]) candidates_by_file"
  have "\<exists>g1. map_of ?next s = Some g1 \<and> x \<in> set g1"
    using Cons.prems by (cases "s = ?stem") (simp_all add: update_conv')
  then obtain g1 where "map_of ?next s = Some g1" "x \<in> set g1" by blast
  from Cons.IH [OF this] show ?case by (simp add: Let_def)
qed

lemma group_by_file_has:
  assumes "x \<in> set ids"
  shows "\<exists>g. map_of (group_by_file candidates_by_file ids) (original_stem_of x) = Some g \<and> x \<in> set g"
  using assms
proof (induction ids arbitrary: candidates_by_file)
  case Nil
  then show ?case by simp
next
  case (Cons qa_id ids)
  let ?stem = "original_stem_of qa_id"
  let ?old = "case map_of candidates_by_file ?stem of None \<Rightarrow> [] | Some l \<Rightarrow> l"
  let ?next = "AList.update ?stem (?old @ [qa_id]) candidates_by_file"
  show ?case
  proof (cases "x = qa_id")
    case True
    have "map_of ?next (original_stem_of x) = Some (?old @ [qa_id])" "x \<in> set (?old @ [qa_id])"
      using True by (simp_all add: update_conv')
    from group_by_file_keeps [OF this, of ids] show ?thesis by (simp add: Let_def)
  next
    case False
    with Cons.prems have "x \<in> set ids" by simp
    from Cons.IH [OF this, of ?next] show ?thesis by (simp add: Let_def)
  qed
qed

lemma convert_candidate_failed_mono:
  "set (failed_ids (fst acc)) \<subseteq> set (failed_ids (fst (convert_candidate L acc feature properties qa_id)))"
  by (auto simp: convert_candidate_def Let_def split: sum.splits option.splits bool.splits)

lemma convert_features_failed_mono:
  "set (failed_ids (fst acc)) \<subseteq> set (failed_ids (fst (fst (convert_features L ids acc candidate_features))))"
proof (induction candidate_features arbitrary: acc)
  case Nil
  then show ?case by simp
next
  case (Cons feature rest)
  show ?case
  proof (cases "py_getitem feature ''properties''")
    case (Inl e)
    then show ?thesis by simp
  next
    case (Inr properties)
    note p = this
    show ?thesis
    proof (cases "py_get properties ID_FIELD_NAME")
      case (Inl e)
      with p show ?thesis by simp
    next
      case (Inr qa)
      with p Cons.IH [of acc] Cons.IH [of "convert_candidate L acc feature properties qa"]
        convert_candidate_failed_mono [of acc L feature properties qa]
      show ?thesis by auto
    qed
  qed
qed

lemma read_group_failed_mono:
  "set (failed_ids (fst st)) \<subseteq> set (failed_ids (fst (read_group L fs st entry)))"
proof -
  have mono: "x \<in> set (failed_ids c)"
    if "convert_features L (snd entry)
          (fst st, \<lparr> new_point_features = [], candidates_to_remove = [] \<rparr>) feats = ((c, loc), err)"
      and "x \<in> set (failed_ids (fst st))"
    for feats c loc err x
    using convert_features_failed_mono
            [of "(fst st, \<lparr> new_point_features = [], candidates_to_remove = [] \<rparr>)" L "snd entry" feats]
      that by auto
  show ?thesis
    by (auto simp: read_group_def Let_def
             split: option.splits sum.splits prod.splits stored.splits)
       (blast dest: mono)+
qed

lemma read_group_absent:
  assumes "candidate_files fs (fst entry) = None"
  shows "failed_ids (fst (read_group L fs st entry)) = failed_ids (fst st) @ map JStr (snd entry)"
  using assms by (simp add: read_group_def Let_def)

lemma read_groups_failed_mono:
  "set (failed_ids (fst st)) \<subseteq> set (failed_ids (fst (read_groups L fs st entries)))"
proof (induction entries arbitrary: st)
  case Nil
  then show ?case by simp
next
  case (Cons entry entries)
  from read_group_failed_mono [of st L fs entry] Cons.IH [of "read_group L fs st entry"]
  show ?case by auto
qed

lemma read_groups_absent:
  assumes "(s, g) \<in> set entries" and "candidate_files fs s = None" and "x \<in> set g"
  shows "JStr x \<in> set (failed_ids (fst (read_groups L fs st entries)))"
  using assms
proof (induction entries arbitrary: st)
  case Nil
  then show ?case by simp
next
  case (Cons entry entries)
  show ?case
  proof (cases "entry = (s, g)")
    case True
    with Cons.prems read_group_absent [of fs entry L st]
    have "JStr x \<in> set (failed_ids (fst (read_group L fs st entry)))" by simp
    with read_groups_failed_mono [of "read_group L fs st entry" L fs entries]
    show ?thesis by auto
  next
    case False
    with Cons.prems have "(s, g) \<in> set entries" by simp
    from Cons.IH [OF this Cons.prems(2,3)] show ?thesis by simp
  qed
qed

lemma fail_new_features_mono:
  assumes "fail_new_features failed new = Inr failed'"
  shows "set failed \<subseteq> set failed'"
  using assms
proof (induction new arbitrary: failed)
  case Nil
  then show ?case by simp
next
  case (Cons feature rest)
  from Cons.prems obtain properties qa_id where
    "fail_new_features (if py_truthy qa_id then failed @ [qa_id] else failed) rest = Inr failed'"
    by (auto split: sum.splits)
  from Cons.IH [OF this] show ?case by (auto split: if_splits)
qed

lemma write_group_failed_mono:
  assumes "write_group (fs, c) entry = Inr (fs', c')"
  shows "set (failed_ids c) \<subseteq> set (failed_ids c')"
proof -
  obtain fs1 err where w: "write_stores fs (fst entry) (snd entry) = (fs1, err)"
    by (cases "write_stores fs (fst entry) (snd entry)")
  show ?thesis
  proof (cases err)
    case None
    with assms w show ?thesis by (simp add: write_group_def Let_def)
  next
    case (Some e)
    with assms w obtain failed where
      "fail_new_features (failed_ids c) (new_features (snd entry)) = Inr failed"
      "failed_ids c' = failed"
      by (auto simp: write_group_def Let_def split: sum.splits)
    with fail_new_features_mono show ?thesis by blast
  qed
qed

lemma write_groups_failed_mono:
  assumes "write_groups (fs, c) entries = Inr (fs', c')"
  shows "set (failed_ids c) \<subseteq> set (failed_ids c')"
  using assms
proof (induction entries arbitrary: fs c)
  case Nil
  then show ?case by simp
next
  case (Cons entry entries)
  from Cons.prems obtain fs1 c1 where
    w: "write_group (fs, c) entry = Inr (fs1, c1)"
    and rest: "write_groups (fs1, c1) entries = Inr (fs', c')"
    by (auto split: sum.splits)
  from write_group_failed_mono [OF w] Cons.IH [OF rest] show ?case by auto
qed

lemma absent_candidate_file_is_reported:
  assumes run: "batch_convert_candidates_to_points L fs qa_ids_to_convert = Inr ((n, failed), fs')"
    and x: "x \<in> set qa_ids_to_convert"
    and absent: "candidate_files fs (original_stem_of x) = None"
  shows "JStr x \<in> set failed"
proof -
  let ?groups = "group_by_file [] qa_ids_to_convert"
  let ?read = "read_groups L fs (\<lparr> converted_count = 0, failed_ids = [] \<rparr>, []) ?groups"
  from run obtain fs1 c where
    w: "write_groups (fs, fst ?read) (snd ?read) = Inr (fs1, c)"
    and f: "failed = failed_ids c"
    by (auto simp: batch_convert_candidates_to_points_def Let_def split: if_splits sum.splits)
  from group_by_file_has [OF x, of "[]"] obtain g where
    "map_of ?groups (original_stem_of x) = Some g" and xg: "x \<in> set g" by blast
  then have "(original_stem_of x, g) \<in> set ?groups" by (simp add: map_of_SomeD)
  from read_groups_absent [OF this absent xg] have "JStr x \<in> set (failed_ids (fst ?read))" .
  with write_groups_failed_mono [OF w] f show ?thesis by auto
qed


text \<open>
  C3 states that an identifier which is in no candidate store is reported in
  \<open>failed_ids\<close> also when its candidates file exists and holds no feature with that
  identifier. The code does not report it: in the sample session the candidates file of
  \<open>plots\<close> holds only \<open>plots_2\<close>; converting \<open>plots_1\<close> returns the count 0 and
  an empty list of failed identifiers, and the row of \<open>plots_1\<close> in the detailed
  report, a feature in review, is rewritten to "Valid" and "Converted to Point".
\<close>

theorem missing_identifier_not_reported:
  "original_stem_of ''plots_1'' = ''plots''
   \<and> candidate_files sample_session ''plots''
       = Some (Content (feature_collection ''plots_candidates'' [small_square_feature]))
   \<and> py_getitem small_square_feature ''properties''
       = Inr (JObj [(''qa_assistant_id'', JStr ''plots_2''), (''Area'', JNum 1.2321)])
   \<and> detailed_report sample_session = Some (Content
         [report_row ''plots_1'' ''Requires Review'' ''Auto-fixed'',
          report_row ''plots_2'' ''Candidate for Conversion'' ''Identified'',
          report_row ''plots_3'' ''Valid'' ''N/A''])
   \<and> batch_convert_candidates_to_points sample_lib sample_session [''plots_1'']
       = Inr ((0, []),
              sample_session\<lparr> detailed_report := Some (Content
                [report_row ''plots_1'' ''Valid'' ''Converted to Point'',
                 report_row ''plots_2'' ''Candidate for Conversion'' ''Identified'',
                 report_row ''plots_3'' ''Valid'' ''N/A'']) \<rparr>)"
proof -
  have "candidate_files sample_session ''plots''
       = Some (Content (feature_collection ''plots_candidates'' [small_square_feature]))"
    and "detailed_report sample_session = Some (Content
         [report_row ''plots_1'' ''Requires Review'' ''Auto-fixed'',
          report_row ''plots_2'' ''Candidate for Conversion'' ''Identified'',
          report_row ''plots_3'' ''Valid'' ''N/A''])"
    by (simp_all add: sample_session_def)
  moreover have "py_getitem small_square_feature ''properties''
       = Inr (JObj [(''qa_assistant_id'', JStr ''plots_2''), (''Area'', JNum 1.2321)])"
    by (simp add: small_square_feature_def py_getitem_def)
  ultimately show ?thesis
    using sample_stems(1) sample_not_found by simp
qed

end
